theory Spec2Isabelle
  imports Complex_Main
begin

section \<open>Data model (types/saved-analysis)\<close>

text \<open>
  The TypeScript interfaces are records. A JavaScript \<open>number\<close> holding an amount is a
  \<open>real\<close>, one holding a count (the results of \<open>parseInt\<close>) an \<open>int\<close>; only comparisons
  and equality of these numbers matter below. An ISO date string stands for the instant it
  denotes, in milliseconds since the epoch (\<open>new Date(s)\<close> compares by that number), so
  \<open>created_at\<close> and \<open>updated_at\<close> are \<open>int\<close>. An optional field \<open>f?: T\<close> is a
  \<open>T option\<close>. The field \<open>id\<close> of the source is called \<open>ident\<close>, and the fields of the
  nested objects that share a name with a field of \<open>property\<close> carry a prefix; \<open>notes\<close>
  is \<open>notes_text\<close>.
\<close>

datatype status = Draft | Sent_to_client | Client_responded | Published | Archived

datatype currency = CLP | UF

datatype plan_id = Plan_A | Plan_B | Plan_C

record property_info =
  address :: string
  value_clp :: real
  value_uf :: "real option"
  size_m2 :: real
  bedrooms :: int
  bathrooms :: int
  parking_spaces :: int
  storage_units :: int

record comparable_property =
  comp_address :: "string option"
  comp_size_m2 :: "real option"
  comp_bedrooms :: "int option"
  comp_bathrooms :: "int option"
  comp_parking_spaces :: "int option"
  comp_storage_units :: "int option"
  rent_clp :: "real option"

record annual_expenses_info =
  maintenance_clp :: real
  property_tax_clp :: real
  insurance_clp :: real

record analysis_info =
  suggested_rent_clp :: "real option"
  suggested_rent_uf :: "real option"
  rent_currency :: currency
  capture_price_clp :: "real option"
  capture_price_uf :: "real option"
  capture_price_currency :: "currency option"
  comparable_properties :: "comparable_property list"
  annual_expenses :: annual_expenses_info
  uf_value_clp :: real

record plan_comparison =
  plan :: plan_id
  expected_rental_time :: real
  total_commission :: real
  net_annual_income :: real
  vacancy_risk_score :: real
  recommendation_score :: real

record calculations_info =
  cap_rate :: real
  annual_rental_yield :: real
  monthly_net_income :: real
  vacancy_cost_per_month :: real
  break_even_rent_reduction :: real
  plan_comparisons :: "plan_comparison list"

record metadata_info =
  created_at :: int
  updated_at :: int
  broker_email :: string
  status :: status
  tags :: "string list option"
  notes_text :: "string option"

record SavedAnalysis =
  ident :: string
  title :: string
  property :: property_info
  analysis :: analysis_info
  calculations :: calculations_info
  metadata :: metadata_info

datatype sort_by = Created_at | Updated_at | Property_value | Title

datatype sort_order = Asc | Desc

text \<open>
  \<open>AnalysisFilters\<close>: every field is optional. A \<open>sortBy\<close> that is none of the four keys
  takes the \<open>default\<close> branch of the handler's \<open>switch\<close>, which is the \<open>updated_at\<close>
  branch; a \<open>sortOrder\<close> other than \<open>'asc'\<close> takes the descending branch.
\<close>

record AnalysisFilters =
  search :: "string option"
  filter_status :: "status option"
  dateFrom :: "int option"
  dateTo :: "int option"
  minValue :: "real option"
  maxValue :: "real option"
  filter_bedrooms :: "int option"
  filter_bathrooms :: "int option"
  filter_tags :: "string list option"
  sortBy :: "sort_by option"
  sortOrder :: "sort_order option"

record AnalysisListResponse =
  analyses :: "SavedAnalysis list"
  total :: int
  page :: int
  pageSize :: int
  hasMore :: bool

section \<open>JavaScript built-ins used by the list query\<close>

text \<open>
  \<open>String.prototype.toLowerCase\<close> on the code units a \<open>char\<close> can hold: the ASCII
  capitals, and the capitals of Latin-1 (0xC0 to 0xDE without the multiplication sign).
\<close>

definition toLowerCase_char :: "char \<Rightarrow> char" where
  "toLowerCase_char c =
     (let n = (of_char c :: nat) in
      if (65 \<le> n \<and> n \<le> 90) \<or> (192 \<le> n \<and> n \<le> 222 \<and> n \<noteq> 215)
      then char_of (n + 32) else c)"

definition toLowerCase :: "string \<Rightarrow> string" where
  "toLowerCase s = map toLowerCase_char s"

fun startsWith :: "string \<Rightarrow> string \<Rightarrow> bool" where
  "startsWith s [] = True"
| "startsWith [] (c # cs) = False"
| "startsWith (d # ds) (c # cs) = (d = c \<and> startsWith ds cs)"

text \<open>\<open>s.includes(sub)\<close>: \<open>sub\<close> occurs in \<open>s\<close> as a contiguous substring.\<close>

fun includes_str :: "string \<Rightarrow> string \<Rightarrow> bool" where
  "includes_str [] sub = (sub = [])"
| "includes_str (d # ds) sub = (startsWith (d # ds) sub \<or> includes_str ds sub)"

text \<open>\<open>a < b\<close> on strings: lexicographic on the code units.\<close>

fun string_less :: "string \<Rightarrow> string \<Rightarrow> bool" where
  "string_less [] [] = False"
| "string_less [] (c # cs) = True"
| "string_less (d # ds) [] = False"
| "string_less (d # ds) (c # cs) =
     (if (of_char d :: nat) < of_char c then True
      else if (of_char c :: nat) < of_char d then False
      else string_less ds cs)"

text \<open>
  \<open>Array.prototype.slice(start, end)\<close> for integer arguments: a negative index counts
  from the end of the array, both indices are clamped to \<open>0..length\<close>, and the result is
  empty when the clamped end is not after the clamped start.
\<close>

definition slice_index :: "int \<Rightarrow> int \<Rightarrow> int" where
  "slice_index len i = (if i < 0 then max (len + i) 0 else min i len)"

definition slice :: "'a list \<Rightarrow> int \<Rightarrow> int \<Rightarrow> 'a list" where
  "slice xs start end_index =
     (let len = int (length xs);
          k = slice_index len start;
          final = slice_index len end_index
      in take (nat (final - k)) (drop (nat k) xs))"


section \<open>The list query (app/api/analyses/route.ts, GET)\<close>

subsection \<open>The tag filter of a request\<close>


subsection \<open>Filters\<close>

text \<open>
  Each filter is guarded by the truthiness of its field: \<open>undefined\<close>, the empty string
  and the number \<open>0\<close> are falsy, and the tag filter is guarded by
  \<open>filters.tags && filters.tags.length > 0\<close>. The filters are applied in the order of the
  source.
\<close>

definition search_matches :: "string \<Rightarrow> SavedAnalysis \<Rightarrow> bool" where
  "search_matches s a =
     (let searchLower = toLowerCase s in
      includes_str (toLowerCase (title a)) searchLower \<or>
      includes_str (toLowerCase (address (property a))) searchLower)"

definition filter_search :: "AnalysisFilters \<Rightarrow> SavedAnalysis list \<Rightarrow> SavedAnalysis list" where
  "filter_search f xs =
     (case search f of
        None \<Rightarrow> xs
      | Some s \<Rightarrow> if s = [] then xs else filter (search_matches s) xs)"

definition filter_by_status :: "AnalysisFilters \<Rightarrow> SavedAnalysis list \<Rightarrow> SavedAnalysis list" where
  "filter_by_status f xs =
     (case filter_status f of
        None \<Rightarrow> xs
      | Some st \<Rightarrow> filter (\<lambda>a. status (metadata a) = st) xs)"

definition filter_minValue :: "AnalysisFilters \<Rightarrow> SavedAnalysis list \<Rightarrow> SavedAnalysis list" where
  "filter_minValue f xs =
     (case minValue f of
        None \<Rightarrow> xs
      | Some v \<Rightarrow> if v = 0 then xs else filter (\<lambda>a. value_clp (property a) \<ge> v) xs)"

definition filter_maxValue :: "AnalysisFilters \<Rightarrow> SavedAnalysis list \<Rightarrow> SavedAnalysis list" where
  "filter_maxValue f xs =
     (case maxValue f of
        None \<Rightarrow> xs
      | Some v \<Rightarrow> if v = 0 then xs else filter (\<lambda>a. value_clp (property a) \<le> v) xs)"

definition filter_by_bedrooms :: "AnalysisFilters \<Rightarrow> SavedAnalysis list \<Rightarrow> SavedAnalysis list" where
  "filter_by_bedrooms f xs =
     (case filter_bedrooms f of
        None \<Rightarrow> xs
      | Some n \<Rightarrow> if n = 0 then xs else filter (\<lambda>a. bedrooms (property a) = n) xs)"

definition filter_by_bathrooms :: "AnalysisFilters \<Rightarrow> SavedAnalysis list \<Rightarrow> SavedAnalysis list" where
  "filter_by_bathrooms f xs =
     (case filter_bathrooms f of
        None \<Rightarrow> xs
      | Some n \<Rightarrow> if n = 0 then xs else filter (\<lambda>a. bathrooms (property a) = n) xs)"

text \<open>
  \<open>filters.tags.some((tag) => analysis.metadata.tags?.includes(tag))\<close>: a record without
  a \<open>tags\<close> field gives \<open>undefined\<close>, which is falsy.
\<close>

definition has_some_tag :: "string list \<Rightarrow> SavedAnalysis \<Rightarrow> bool" where
  "has_some_tag ts a =
     list_ex (\<lambda>tag. case tags (metadata a) of None \<Rightarrow> False | Some own \<Rightarrow> tag \<in> set own) ts"

definition filter_by_tags :: "AnalysisFilters \<Rightarrow> SavedAnalysis list \<Rightarrow> SavedAnalysis list" where
  "filter_by_tags f xs =
     (case filter_tags f of
        None \<Rightarrow> xs
      | Some ts \<Rightarrow> if length ts > 0 then filter (has_some_tag ts) xs else xs)"

definition filter_dateFrom :: "AnalysisFilters \<Rightarrow> SavedAnalysis list \<Rightarrow> SavedAnalysis list" where
  "filter_dateFrom f xs =
     (case dateFrom f of
        None \<Rightarrow> xs
      | Some fromDate \<Rightarrow> filter (\<lambda>a. created_at (metadata a) \<ge> fromDate) xs)"

definition filter_dateTo :: "AnalysisFilters \<Rightarrow> SavedAnalysis list \<Rightarrow> SavedAnalysis list" where
  "filter_dateTo f xs =
     (case dateTo f of
        None \<Rightarrow> xs
      | Some toDate \<Rightarrow> filter (\<lambda>a. created_at (metadata a) \<le> toDate) xs)"

definition applyFilters :: "AnalysisFilters \<Rightarrow> SavedAnalysis list \<Rightarrow> SavedAnalysis list" where
  "applyFilters f xs =
     filter_dateTo f (filter_dateFrom f (filter_by_tags f (filter_by_bathrooms f
       (filter_by_bedrooms f (filter_maxValue f (filter_minValue f
         (filter_by_status f (filter_search f xs))))))))"

subsection \<open>The comparator handed to \<open>Array.prototype.sort\<close>\<close>

text \<open>\<open>aValue < bValue\<close> for the key the \<open>switch\<close> selects.\<close>

definition key_less :: "sort_by option \<Rightarrow> SavedAnalysis \<Rightarrow> SavedAnalysis \<Rightarrow> bool" where
  "key_less k a b =
     (case k of
        Some Title \<Rightarrow> string_less (title a) (title b)
      | Some Property_value \<Rightarrow> value_clp (property a) < value_clp (property b)
      | Some Created_at \<Rightarrow> created_at (metadata a) < created_at (metadata b)
      | Some Updated_at \<Rightarrow> updated_at (metadata a) < updated_at (metadata b)
      | None \<Rightarrow> updated_at (metadata a) < updated_at (metadata b))"

text \<open>
  The comparator returns \<open>aValue > bValue ? 1 : -1\<close> when ascending and
  \<open>aValue < bValue ? 1 : -1\<close> otherwise. It has no branch that returns \<open>0\<close>.
\<close>

definition compareFn :: "AnalysisFilters \<Rightarrow> SavedAnalysis \<Rightarrow> SavedAnalysis \<Rightarrow> int" where
  "compareFn f a b =
     (if sortOrder f = Some Asc
      then (if key_less (sortBy f) b a then 1 else - 1)
      else (if key_less (sortBy f) a b then 1 else - 1))"

subsection \<open>Pagination\<close>

definition paginate :: "int \<Rightarrow> int \<Rightarrow> SavedAnalysis list \<Rightarrow> AnalysisListResponse" where
  "paginate pg psize filteredAnalyses =
     (let startIndex = (pg - 1) * psize;
          endIndex = startIndex + psize;
          paginatedAnalyses = slice filteredAnalyses startIndex endIndex
      in \<lparr> analyses = paginatedAnalyses,
           total = int (length filteredAnalyses),
           page = pg,
           pageSize = psize,
           hasMore = (endIndex < int (length filteredAnalyses)) \<rparr>)"

text \<open>
  The handler as a whole: filter, sort in place, paginate. The order in which
  \<open>Array.prototype.sort\<close> leaves elements is fixed by the language only for a consistent
  comparator, so the engine's sort is a parameter \<open>sort_impl\<close> here: it receives the
  comparator and the filtered array.
\<close>

definition GET_list ::
  "((SavedAnalysis \<Rightarrow> SavedAnalysis \<Rightarrow> int) \<Rightarrow> SavedAnalysis list \<Rightarrow> SavedAnalysis list) \<Rightarrow>
   AnalysisFilters \<Rightarrow> int \<Rightarrow> int \<Rightarrow> SavedAnalysis list \<Rightarrow> AnalysisListResponse" where
  "GET_list sort_impl f pg psize all_analyses =
     paginate pg psize (sort_impl (compareFn f) (applyFilters f all_analyses))"

section \<open>The persistence adapter (lib/localStorage)\<close>

subsection \<open>Dashboard records\<close>

datatype activity_type = Analysis_created | Rental_sent | Client_response | Price_updated

record DashboardActivity =
  activity_id :: string
  activity_type :: activity_type
  activity_title :: string
  description :: string
  date :: int
  property_address :: "string option"

record DashboardData =
  totalAnalyses :: int
  activeRentals :: int
  totalRevenue :: real
  averageRentability :: real
  recentActivity :: "DashboardActivity list"

subsection \<open>The browser store\<close>

text \<open>
  \<open>localStorage\<close> holds text under string keys. The text under a key either parses
  (\<open>JSON.parse\<close>) to a value of the type the adapter reads it at, or makes \<open>JSON.parse\<close>
  throw; \<open>JSON.stringify\<close> followed by \<open>JSON.parse\<close> gives the value back. The adapter
  uses two keys, \<open>rental_analyses\<close> and \<open>dashboard_data\<close>. When \<open>available\<close> is false
  (no \<open>window\<close>, or a store that refuses the probe write), every access to \<open>localStorage\<close>
  throws.
\<close>

datatype js_error = StorageError | SyntaxError | Error string

datatype 'a stored_text = Unparseable | Json 'a

record local_storage =
  available :: bool
  rental_analyses :: "SavedAnalysis list stored_text option"
  dashboard_data :: "DashboardData stored_text option"

definition JSON_parse :: "'a stored_text \<Rightarrow> js_error + 'a" where
  "JSON_parse t = (case t of Unparseable \<Rightarrow> Inl SyntaxError | Json v \<Rightarrow> Inr v)"

definition getItem_ANALYSES :: "local_storage \<Rightarrow> js_error + SavedAnalysis list stored_text option" where
  "getItem_ANALYSES ls = (if available ls then Inr (rental_analyses ls) else Inl StorageError)"

definition getItem_DASHBOARD_DATA :: "local_storage \<Rightarrow> js_error + DashboardData stored_text option" where
  "getItem_DASHBOARD_DATA ls = (if available ls then Inr (dashboard_data ls) else Inl StorageError)"

definition setItem_ANALYSES :: "SavedAnalysis list \<Rightarrow> local_storage \<Rightarrow> js_error + local_storage" where
  "setItem_ANALYSES xs ls =
     (if available ls then Inr (ls\<lparr>rental_analyses := Some (Json xs)\<rparr>) else Inl StorageError)"

definition setItem_DASHBOARD_DATA :: "DashboardData \<Rightarrow> local_storage \<Rightarrow> js_error + local_storage" where
  "setItem_DASHBOARD_DATA d ls =
     (if available ls then Inr (ls\<lparr>dashboard_data := Some (Json d)\<rparr>) else Inl StorageError)"

definition removeItem_ANALYSES :: "local_storage \<Rightarrow> js_error + local_storage" where
  "removeItem_ANALYSES ls =
     (if available ls then Inr (ls\<lparr>rental_analyses := None\<rparr>) else Inl StorageError)"

definition removeItem_DASHBOARD_DATA :: "local_storage \<Rightarrow> js_error + local_storage" where
  "removeItem_DASHBOARD_DATA ls =
     (if available ls then Inr (ls\<lparr>dashboard_data := None\<rparr>) else Inl StorageError)"

text \<open>
  \<open>isLocalStorageAvailable\<close> writes and removes the key \<open>test\<close>, which leaves the two
  keys of the adapter as they are, and answers whether that worked.
\<close>

definition isLocalStorageAvailable :: "local_storage \<Rightarrow> bool" where
  "isLocalStorageAvailable ls = available ls"

subsection \<open>Array helpers\<close>

text \<open>\<open>Array.prototype.findIndex\<close>: the first index whose element satisfies \<open>P\<close>, or \<open>-1\<close>.\<close>

fun findIndex :: "('a \<Rightarrow> bool) \<Rightarrow> 'a list \<Rightarrow> int" where
  "findIndex P [] = - 1"
| "findIndex P (x # xs) =
     (if P x then 0 else (let i = findIndex P xs in if i \<ge> 0 then i + 1 else - 1))"

text \<open>Decimal digits of an instant, for the ids built from \<open>Date.now()\<close>.\<close>

fun digits :: "nat \<Rightarrow> string" where
  "digits n = (if n < 10 then [char_of (48 + n)] else digits (n div 10) @ [char_of (48 + n mod 10)])"

definition number_toString :: "int \<Rightarrow> string" where
  "number_toString i = (if i < 0 then CHR ''-'' # digits (nat (- i)) else digits (nat i))"

definition status_toString :: "status \<Rightarrow> string" where
  "status_toString st =
     (case st of Draft \<Rightarrow> ''draft'' | Sent_to_client \<Rightarrow> ''sent_to_client''
      | Client_responded \<Rightarrow> ''client_responded'' | Published \<Rightarrow> ''published''
      | Archived \<Rightarrow> ''archived'')"

subsection \<open>\<open>AnalysisStorage\<close>\<close>

text \<open>
  Each method takes the store and returns its result with the store as it leaves it. The
  instant \<open>now\<close> is what \<open>new Date()\<close> and \<open>Date.now()\<close> read during the call. A
  \<open>try\<close>/\<open>catch\<close> of the source is a case distinction on the result of the accesses it
  guards.
\<close>

definition AnalysisStorage_getAll :: "local_storage \<Rightarrow> SavedAnalysis list" where
  "AnalysisStorage_getAll ls =
     (if \<not> isLocalStorageAvailable ls then []
      else (case getItem_ANALYSES ls of
              Inl e \<Rightarrow> []
            | Inr None \<Rightarrow> []
            | Inr (Some t) \<Rightarrow> (case JSON_parse t of Inl e \<Rightarrow> [] | Inr xs \<Rightarrow> xs)))"

definition AnalysisStorage_getById :: "string \<Rightarrow> local_storage \<Rightarrow> SavedAnalysis option" where
  "AnalysisStorage_getById i ls = find (\<lambda>a. ident a = i) (AnalysisStorage_getAll ls)"

text \<open>
  \<open>getRecentActivity\<close>: one entry per record, a second one for a record sent to the
  client, sorted by date, most recent first (the comparator \<open>b.date - a.date\<close> is
  consistent, so the sort is stable), cut to 20.
\<close>

definition activities_of :: "SavedAnalysis \<Rightarrow> DashboardActivity list" where
  "activities_of a =
     \<lparr> activity_id = ''analysis_'' @ ident a, activity_type = Analysis_created,
       activity_title = ''Nuevo an'' @ [char_of (225::nat)] @ ''lisis creado'',
       description = ''\"'' @ title a @ ''\"'',
       date = created_at (metadata a),
       property_address = Some (address (property a)) \<rparr>
     # (if status (metadata a) = Sent_to_client
        then [\<lparr> activity_id = ''sent_'' @ ident a, activity_type = Rental_sent,
                activity_title = ''Propuesta enviada'',
                description = ''An'' @ [char_of (225::nat)] @ ''lisis \"'' @ title a @ ''\" enviado al cliente'',
                date = updated_at (metadata a),
                property_address = Some (address (property a)) \<rparr>]
        else [])"

definition AnalysisStorage_getRecentActivity :: "local_storage \<Rightarrow> DashboardActivity list" where
  "AnalysisStorage_getRecentActivity ls =
     slice (sort_key (\<lambda>act. - date act) (concat (map activities_of (AnalysisStorage_getAll ls)))) 0 20"

definition dashboard_stats :: "local_storage \<Rightarrow> DashboardData" where
  "dashboard_stats ls =
     (let xs = AnalysisStorage_getAll ls in
      \<lparr> totalAnalyses = int (length xs),
        activeRentals = int (length (filter (\<lambda>a. status (metadata a) = Sent_to_client
                                                \<or> status (metadata a) = Published) xs)),
        totalRevenue = foldl (\<lambda>acc a. acc + (case suggested_rent_clp (analysis a) of
                                               None \<Rightarrow> 0 | Some v \<Rightarrow> v)) 0 xs,
        averageRentability =
          (if length xs > 0
           then foldl (\<lambda>acc a. acc + cap_rate (calculations a)) 0 xs / real (length xs)
           else 0),
        recentActivity = AnalysisStorage_getRecentActivity ls \<rparr>)"

text \<open>
  \<open>updateDashboardStats\<close> has no \<open>try\<close>: an error of its write would reach the caller.
  The result is the error, if any, and the store.
\<close>

definition AnalysisStorage_updateDashboardStats :: "local_storage \<Rightarrow> js_error option \<times> local_storage" where
  "AnalysisStorage_updateDashboardStats ls =
     (let dashboardData = dashboard_stats ls in
      if isLocalStorageAvailable ls
      then (case setItem_DASHBOARD_DATA dashboardData ls of
              Inl e \<Rightarrow> (Some e, ls)
            | Inr ls' \<Rightarrow> (None, ls'))
      else (None, ls))"

definition AnalysisStorage_save :: "int \<Rightarrow> SavedAnalysis \<Rightarrow> local_storage \<Rightarrow> bool \<times> local_storage" where
  "AnalysisStorage_save now a ls =
     (if \<not> isLocalStorageAvailable ls then (False, ls)
      else
        (let xs = AnalysisStorage_getAll ls;
             existingIndex = findIndex (\<lambda>x. ident x = ident a) xs;
             xs' = (if existingIndex \<ge> 0
                    then xs[nat existingIndex := a\<lparr>metadata := (metadata a)\<lparr>updated_at := now\<rparr>\<rparr>]
                    else xs @ [a])
         in case setItem_ANALYSES xs' ls of
              Inl e \<Rightarrow> (False, ls)
            | Inr ls1 \<Rightarrow>
                (case AnalysisStorage_updateDashboardStats ls1 of
                   (Some e, ls2) \<Rightarrow> (False, ls2)
                 | (None, ls2) \<Rightarrow> (True, ls2))))"

definition AnalysisStorage_delete :: "string \<Rightarrow> local_storage \<Rightarrow> bool \<times> local_storage" where
  "AnalysisStorage_delete i ls =
     (if \<not> isLocalStorageAvailable ls then (False, ls)
      else
        (let xs = AnalysisStorage_getAll ls;
             filteredAnalyses = filter (\<lambda>a. ident a \<noteq> i) xs
         in case setItem_ANALYSES filteredAnalyses ls of
              Inl e \<Rightarrow> (False, ls)
            | Inr ls1 \<Rightarrow>
                (case AnalysisStorage_updateDashboardStats ls1 of
                   (Some e, ls2) \<Rightarrow> (False, ls2)
                 | (None, ls2) \<Rightarrow> (True, ls2))))"

definition empty_dashboard :: DashboardData where
  "empty_dashboard = \<lparr> totalAnalyses = 0, activeRentals = 0, totalRevenue = 0,
     averageRentability = 0, recentActivity = [] \<rparr>"

text \<open>
  \<open>getDashboardData\<close>: the stored summary if it is there and parses; otherwise the
  statistics are recomputed and written, and the summary is read again, outside any
  \<open>try\<close>.
\<close>

definition AnalysisStorage_getDashboardData :: "local_storage \<Rightarrow> (js_error + DashboardData) \<times> local_storage" where
  "AnalysisStorage_getDashboardData ls =
     (if \<not> isLocalStorageAvailable ls then (Inr empty_dashboard, ls)
      else
        (case (case getItem_DASHBOARD_DATA ls of
                 Inl e \<Rightarrow> None
               | Inr None \<Rightarrow> None
               | Inr (Some t) \<Rightarrow> (case JSON_parse t of Inl e \<Rightarrow> None | Inr d \<Rightarrow> Some d)) of
           Some d \<Rightarrow> (Inr d, ls)
         | None \<Rightarrow>
             (case AnalysisStorage_updateDashboardStats ls of
                (Some e, ls1) \<Rightarrow> (Inl e, ls1)
              | (None, ls1) \<Rightarrow>
                  (case getItem_DASHBOARD_DATA ls1 of
                     Inl e \<Rightarrow> (Inl e, ls1)
                   | Inr None \<Rightarrow> (Inr empty_dashboard, ls1)
                   | Inr (Some t) \<Rightarrow>
                       (case JSON_parse t of Inl e \<Rightarrow> (Inl e, ls1) | Inr d \<Rightarrow> (Inr d, ls1))))))"

text \<open>
  \<open>addDashboardActivity\<close>: the new entry goes first and the log is cut to 20 entries.
  Everything after the availability check is inside one \<open>try\<close> whose \<open>catch\<close> only logs.
\<close>

definition AnalysisStorage_addDashboardActivity :: "DashboardActivity \<Rightarrow> local_storage \<Rightarrow> local_storage" where
  "AnalysisStorage_addDashboardActivity activity ls =
     (if \<not> isLocalStorageAvailable ls then ls
      else
        (case AnalysisStorage_getDashboardData ls of
           (Inl e, ls1) \<Rightarrow> ls1
         | (Inr currentData, ls1) \<Rightarrow>
             (let activities = activity # recentActivity currentData;
                  recentActivities = slice activities 0 20;
                  updatedData = currentData\<lparr>recentActivity := recentActivities\<rparr>
              in case setItem_DASHBOARD_DATA updatedData ls1 of
                   Inl e \<Rightarrow> ls1
                 | Inr ls2 \<Rightarrow> ls2)))"

text \<open>
  \<open>updateStatus\<close> has no availability check of its own: with an unavailable store
  \<open>getAll\<close> is empty and no index is found.
\<close>

definition AnalysisStorage_updateStatus :: "int \<Rightarrow> string \<Rightarrow> status \<Rightarrow> local_storage \<Rightarrow> bool \<times> local_storage" where
  "AnalysisStorage_updateStatus now i st ls =
     (let xs = AnalysisStorage_getAll ls;
          analysisIndex = findIndex (\<lambda>a. ident a = i) xs
      in if analysisIndex \<ge> 0
         then
           (let old = xs ! nat analysisIndex;
                updated = old\<lparr>metadata := (metadata old)\<lparr>status := st, updated_at := now\<rparr>\<rparr>;
                xs' = xs[nat analysisIndex := updated]
            in case setItem_ANALYSES xs' ls of
                 Inl e \<Rightarrow> (False, ls)
               | Inr ls1 \<Rightarrow>
                   (True, AnalysisStorage_addDashboardActivity
                      \<lparr> activity_id = ''activity_'' @ number_toString now,
                        activity_type = Rental_sent,
                        activity_title = ''Estado actualizado: '' @ status_toString st,
                        description = ''An'' @ [char_of (225::nat)] @ ''lisis \"'' @ title updated
                          @ ''\" cambi'' @ [char_of (243::nat)] @ '' a '' @ status_toString st,
                        date = now,
                        property_address = Some (address (property updated)) \<rparr> ls1))
         else (False, ls))"

definition AnalysisStorage_clearAll :: "local_storage \<Rightarrow> bool \<times> local_storage" where
  "AnalysisStorage_clearAll ls =
     (if \<not> isLocalStorageAvailable ls then (False, ls)
      else (case removeItem_ANALYSES ls of
              Inl e \<Rightarrow> (False, ls)
            | Inr ls1 \<Rightarrow>
                (case removeItem_DASHBOARD_DATA ls1 of
                   Inl e \<Rightarrow> (False, ls1)
                 | Inr ls2 \<Rightarrow> (True, ls2))))"


section \<open>The read-through cache (lib/cache/analysisCache)\<close>

text \<open>
  Modelled from the spec: the module \<open>lib/cache/analysisCache\<close> is imported by the
  repository but is not among the sources. Section 4.3 of the specification gives its
  contract: single records and the unparameterised list are memoised with a fixed
  time-to-live; an expired entry is read as an absent one; an entry and all lists can be
  invalidated. The repository calls it as \<open>get\<close>, \<open>set\<close>, \<open>invalidate\<close>, \<open>getList({})\<close>,
  \<open>setList({}, records)\<close> and \<open>invalidateLists\<close>, always with the empty query key, so the
  lists are one slot here. Each value is kept with the instant it was stored at.
\<close>

record analysisCache =
  entries :: "(string \<times> SavedAnalysis \<times> int) list"
  lists :: "(SavedAnalysis list \<times> int) option"

text \<open>
  Modelled from the spec: the time-to-live, five minutes in milliseconds (the repository's
  comment on \<open>setList\<close> says the list is cached for five minutes).
\<close>

definition cache_ttl :: int where
  "cache_ttl = 300000"

text \<open>Modelled from the spec: \<open>getEntry(id)\<close>, absent on a miss or after expiry.\<close>

definition cache_get :: "int \<Rightarrow> string \<Rightarrow> analysisCache \<Rightarrow> SavedAnalysis option" where
  "cache_get now i c =
     (case map_of (entries c) i of
        None \<Rightarrow> None
      | Some (a, stored_at) \<Rightarrow> if now - stored_at < cache_ttl then Some a else None)"

text \<open>Modelled from the spec: \<open>setEntry(id, record)\<close>.\<close>

definition cache_set :: "int \<Rightarrow> string \<Rightarrow> SavedAnalysis \<Rightarrow> analysisCache \<Rightarrow> analysisCache" where
  "cache_set now i a c = c\<lparr>entries := (i, a, now) # filter (\<lambda>e. fst e \<noteq> i) (entries c)\<rparr>"

text \<open>Modelled from the spec: \<open>invalidateEntry(id)\<close>.\<close>

definition cache_invalidate :: "string \<Rightarrow> analysisCache \<Rightarrow> analysisCache" where
  "cache_invalidate i c = c\<lparr>entries := filter (\<lambda>e. fst e \<noteq> i) (entries c)\<rparr>"

text \<open>Modelled from the spec: \<open>getList(queryKey)\<close> for the empty query key.\<close>

definition cache_getList :: "int \<Rightarrow> analysisCache \<Rightarrow> SavedAnalysis list option" where
  "cache_getList now c =
     (case lists c of
        None \<Rightarrow> None
      | Some (xs, stored_at) \<Rightarrow> if now - stored_at < cache_ttl then Some xs else None)"

text \<open>Modelled from the spec: \<open>setList(queryKey, records)\<close> for the empty query key.\<close>

definition cache_setList :: "int \<Rightarrow> SavedAnalysis list \<Rightarrow> analysisCache \<Rightarrow> analysisCache" where
  "cache_setList now xs c = c\<lparr>lists := Some (xs, now)\<rparr>"

text \<open>Modelled from the spec: \<open>invalidateAllLists()\<close>.\<close>

definition cache_invalidateLists :: "analysisCache \<Rightarrow> analysisCache" where
  "cache_invalidateLists c = c\<lparr>lists := None\<rparr>"

section \<open>The repository (lib/analysisStore.ts)\<close>

text \<open>
  The state of the repository is the cache and the browser store. The sources hold two
  revisions of this module. This is the first, in which \<open>initializeWithExampleData\<close>
  returns at once; in the other it seeds two example records into an empty store, and the
  functions below are the same in both.
\<close>

record store_state =
  cache :: analysisCache
  storage :: local_storage

definition getAllAnalyses :: "int \<Rightarrow> store_state \<Rightarrow> SavedAnalysis list \<times> store_state" where
  "getAllAnalyses now s =
     (case cache_getList now (cache s) of
        Some cached \<Rightarrow> (cached, s)
      | None \<Rightarrow>
          (let result = AnalysisStorage_getAll (storage s)
           in (result, s\<lparr>cache := cache_setList now result (cache s)\<rparr>)))"

definition getAnalysisById :: "int \<Rightarrow> string \<Rightarrow> store_state \<Rightarrow> SavedAnalysis option \<times> store_state" where
  "getAnalysisById now i s =
     (case cache_get now i (cache s) of
        Some cached \<Rightarrow> (Some cached, s)
      | None \<Rightarrow>
          (case AnalysisStorage_getById i (storage s) of
             Some result \<Rightarrow> (Some result, s\<lparr>cache := cache_set now i result (cache s)\<rparr>)
           | None \<Rightarrow> (None, s)))"

text \<open>\<open>saveAnalysis\<close> throws when the adapter reports failure.\<close>

definition saveAnalysis :: "int \<Rightarrow> SavedAnalysis \<Rightarrow> store_state \<Rightarrow> (js_error + SavedAnalysis) \<times> store_state" where
  "saveAnalysis now a s =
     (case AnalysisStorage_save now a (storage s) of
        (True, ls) \<Rightarrow>
          (let c1 = cache_set now (ident a) a (cache s);
               c2 = cache_invalidateLists c1;
               ls' = AnalysisStorage_addDashboardActivity
                      \<lparr> activity_id = ''save_'' @ number_toString now,
                        activity_type = Analysis_created,
                        activity_title = ''An'' @ [char_of (225::nat)] @ ''lisis guardado'',
                        description = ''\"'' @ title a @ ''\" guardado exitosamente'',
                        date = now,
                        property_address = Some (address (property a)) \<rparr> ls
           in (Inr a, \<lparr> cache = c2, storage = ls' \<rparr>))
      | (False, ls) \<Rightarrow>
          (Inl (Error (''Error al guardar el an'' @ [char_of (225::nat)] @ ''lisis'')),
           s\<lparr>storage := ls\<rparr>))"

definition deleteAnalysis :: "int \<Rightarrow> string \<Rightarrow> store_state \<Rightarrow> bool \<times> store_state" where
  "deleteAnalysis now i s =
     (let found = AnalysisStorage_getById i (storage s)
      in case AnalysisStorage_delete i (storage s) of
           (True, ls) \<Rightarrow>
             (let c1 = cache_invalidate i (cache s);
                  c2 = cache_invalidateLists c1;
                  ls' = (case found of
                           Some a \<Rightarrow>
                             AnalysisStorage_addDashboardActivity
                               \<lparr> activity_id = ''delete_'' @ number_toString now,
                                 activity_type = Analysis_created,
                                 activity_title = ''An'' @ [char_of (225::nat)] @ ''lisis eliminado'',
                                 description = ''\"'' @ title a @ ''\" fue eliminado'',
                                 date = now,
                                 property_address = Some (address (property a)) \<rparr> ls
                         | None \<Rightarrow> ls)
              in (True, \<lparr> cache = c2, storage = ls' \<rparr>))
         | (False, ls) \<Rightarrow> (False, s\<lparr>storage := ls\<rparr>))"

text \<open>
  \<open>Partial<SavedAnalysis>\<close>: every key may be missing. The \<open>metadata\<close> of the update is
  spread key by key over the existing one, so its keys may be missing too.
\<close>

record partial_metadata =
  upd_created_at :: "int option"
  upd_updated_at :: "int option"
  upd_broker_email :: "string option"
  upd_status :: "status option"
  upd_tags :: "string list option"
  upd_notes :: "string option"

record partial_analysis =
  upd_ident :: "string option"
  upd_title :: "string option"
  upd_property :: "property_info option"
  upd_analysis :: "analysis_info option"
  upd_calculations :: "calculations_info option"
  upd_metadata :: "partial_metadata option"

definition or_else :: "'a option \<Rightarrow> 'a \<Rightarrow> 'a" where
  "or_else supplied existing = (case supplied of None \<Rightarrow> existing | Some v \<Rightarrow> v)"

text \<open>
  \<open>{...existingAnalysis.metadata, ...updates.metadata, updated_at: now}\<close>: the keys of
  the update replace the existing ones, then \<open>updated_at\<close> is set.
\<close>

definition merge_metadata :: "int \<Rightarrow> metadata_info \<Rightarrow> partial_metadata option \<Rightarrow> metadata_info" where
  "merge_metadata now existing upd =
     (case upd of
        None \<Rightarrow> existing\<lparr>updated_at := now\<rparr>
      | Some m \<Rightarrow>
          \<lparr> created_at = or_else (upd_created_at m) (created_at existing),
            updated_at = now,
            broker_email = or_else (upd_broker_email m) (broker_email existing),
            status = or_else (upd_status m) (status existing),
            tags = (case upd_tags m of None \<Rightarrow> tags existing | Some t \<Rightarrow> Some t),
            notes_text = (case upd_notes m of None \<Rightarrow> notes_text existing | Some n \<Rightarrow> Some n) \<rparr>)"

definition merge_analysis :: "int \<Rightarrow> SavedAnalysis \<Rightarrow> partial_analysis \<Rightarrow> SavedAnalysis" where
  "merge_analysis now existingAnalysis updates =
     \<lparr> ident = or_else (upd_ident updates) (ident existingAnalysis),
       title = or_else (upd_title updates) (title existingAnalysis),
       property = or_else (upd_property updates) (property existingAnalysis),
       analysis = or_else (upd_analysis updates) (analysis existingAnalysis),
       calculations = or_else (upd_calculations updates) (calculations existingAnalysis),
       metadata = merge_metadata now (metadata existingAnalysis) (upd_metadata updates) \<rparr>"

text \<open>
  \<open>updateAnalysis\<close> reads the clock twice: once itself, for the \<open>updated_at\<close> of the merged
  record (\<open>now\<close>), and once more, later, inside the adapter's \<open>save\<close> when that replaces a
  stored record (\<open>save_now\<close>). The cache is written after the save.
\<close>

definition updateAnalysis :: "int \<Rightarrow> int \<Rightarrow> string \<Rightarrow> partial_analysis \<Rightarrow> store_state \<Rightarrow> SavedAnalysis option \<times> store_state" where
  "updateAnalysis now save_now i updates s =
     (case AnalysisStorage_getById i (storage s) of
        None \<Rightarrow> (None, s)
      | Some existingAnalysis \<Rightarrow>
          (let updatedAnalysis = merge_analysis now existingAnalysis updates
           in case AnalysisStorage_save save_now updatedAnalysis (storage s) of
                (True, ls) \<Rightarrow>
                  (Some updatedAnalysis,
                   \<lparr> cache = cache_invalidateLists (cache_set save_now i updatedAnalysis (cache s)),
                     storage = ls \<rparr>)
              | (False, ls) \<Rightarrow> (None, s\<lparr>storage := ls\<rparr>)))"

definition updateAnalysisStatus :: "int \<Rightarrow> string \<Rightarrow> status \<Rightarrow> store_state \<Rightarrow> bool \<times> store_state" where
  "updateAnalysisStatus now i st s =
     (case AnalysisStorage_updateStatus now i st (storage s) of
        (True, ls) \<Rightarrow>
          (True, \<lparr> cache = cache_invalidateLists (cache_invalidate i (cache s)), storage = ls \<rparr>)
      | (False, ls) \<Rightarrow> (False, s\<lparr>storage := ls\<rparr>))"

section \<open>The delete endpoint (app/api/analyses/[id]/route.ts, DELETE)\<close>

text \<open>
  The responses of the handler: 400 without an id, 404 when no record is found, 403 for a
  published record, 500 when the repository reports failure, and 200 with the id, title
  and address of the deleted record.
\<close>

datatype delete_response =
    Bad_Request_400
  | Not_Found_404
  | Forbidden_403
  | Internal_Error_500
  | Deleted_200 string string string

definition DELETE :: "int \<Rightarrow> string \<Rightarrow> store_state \<Rightarrow> delete_response \<times> store_state" where
  "DELETE now i s =
     (if i = [] then (Bad_Request_400, s)
      else
        (case getAnalysisById now i s of
           (None, s1) \<Rightarrow> (Not_Found_404, s1)
         | (Some a, s1) \<Rightarrow>
             if status (metadata a) = Published then (Forbidden_403, s1)
             else
               (case deleteAnalysis now i s1 of
                  (False, s2) \<Rightarrow> (Internal_Error_500, s2)
                | (True, s2) \<Rightarrow> (Deleted_200 (ident a) (title a) (address (property a)), s2))))"



section \<open>Specification-side definitions and example data\<close>

text \<open>
  The page of a listing as the specification words it: the elements whose index lies in
  the half-open interval from \<open>(page - 1) * pageSize\<close> to \<open>page * pageSize\<close>.
\<close>

definition page_slice_spec :: "'a list \<Rightarrow> int \<Rightarrow> int \<Rightarrow> 'a list" where
  "page_slice_spec xs pg psize =
     map (\<lambda>i. xs ! i) (filter (\<lambda>i. (pg - 1) * psize \<le> int i \<and> int i < pg * psize) [0..<length xs])"

text \<open>The filter object of a request without query parameters.\<close>

definition no_filters :: AnalysisFilters where
  "no_filters = \<lparr> search = None, filter_status = None, dateFrom = None, dateTo = None,
     minValue = None, maxValue = None, filter_bedrooms = None, filter_bathrooms = None,
     filter_tags = None, sortBy = Some Updated_at, sortOrder = Some Desc \<rparr>"

text \<open>A draft record with the given id, last-update instant and tags.\<close>

definition sample_analysis :: "string \<Rightarrow> int \<Rightarrow> string list option \<Rightarrow> SavedAnalysis" where
  "sample_analysis i upd tgs =
     \<lparr> ident = i, title = ''Depto '' @ i,
       property = \<lparr> address = ''Av. Providencia 123'', value_clp = 95000000, value_uf = Some 2500,
         size_m2 = 75, bedrooms = 2, bathrooms = 2, parking_spaces = 1, storage_units = 1 \<rparr>,
       analysis = \<lparr> suggested_rent_clp = Some 850000, suggested_rent_uf = None, rent_currency = CLP,
         capture_price_clp = None, capture_price_uf = None, capture_price_currency = None,
         comparable_properties = [],
         annual_expenses = \<lparr> maintenance_clp = 1200000, property_tax_clp = 800000,
           insurance_clp = 300000 \<rparr>,
         uf_value_clp = 38000 \<rparr>,
       calculations = \<lparr> cap_rate = 8.5, annual_rental_yield = 10.7, monthly_net_income = 658333,
         vacancy_cost_per_month = 70833, break_even_rent_reduction = 8.33, plan_comparisons = [] \<rparr>,
       metadata = \<lparr> created_at = 1000, updated_at = upd, broker_email = ''corredor@ejemplo.com'',
         status = Draft, tags = tgs, notes_text = None \<rparr> \<rparr>"

definition tagged_records :: "SavedAnalysis list" where
  "tagged_records =
     [sample_analysis ''1'' 5 (Some [''a'', ''b'']),
      sample_analysis ''2'' 5 (Some [''c'']),
      sample_analysis ''3'' 5 (Some [])]"


definition twelve :: "SavedAnalysis list" where
  "twelve = map (\<lambda>i. sample_analysis i 5 None)
     [''A'', ''B'', ''C'', ''D'', ''E'', ''F'', ''G'', ''H'', ''I'', ''J'', ''K'', ''L'']"

text \<open>
  The collection \<open>save\<close> writes, as the specification words it: upsert by id. If the id
  exists the record is replaced and its \<open>updated_at\<close> stamped to the current time;
  otherwise the record is appended.
\<close>

definition upsert :: "int \<Rightarrow> SavedAnalysis \<Rightarrow> SavedAnalysis list \<Rightarrow> SavedAnalysis list" where
  "upsert now a xs =
     (if 0 \<le> findIndex (\<lambda>x. ident x = ident a) xs
      then xs[nat (findIndex (\<lambda>x. ident x = ident a) xs) := a\<lparr>metadata := (metadata a)\<lparr>updated_at := now\<rparr>\<rparr>]
      else xs @ [a])"

text \<open>Example stores and repository states.\<close>

definition empty_store :: local_storage where
  "empty_store = \<lparr> available = True, rental_analyses = None, dashboard_data = None \<rparr>"

definition store_with :: "SavedAnalysis list \<Rightarrow> local_storage" where
  "store_with xs = \<lparr> available = True, rental_analyses = Some (Json xs), dashboard_data = None \<rparr>"

definition unavailable_store :: local_storage where
  "unavailable_store = \<lparr> available = False, rental_analyses = Some (Json tagged_records),
     dashboard_data = None \<rparr>"

text \<open>Example partial updates.\<close>

definition rename_update :: partial_analysis where
  "rename_update = \<lparr> upd_ident = Some ''9'', upd_title = None, upd_property = None,
     upd_analysis = None, upd_calculations = None,
     upd_metadata = Some \<lparr> upd_created_at = Some 7, upd_updated_at = Some 8,
       upd_broker_email = None, upd_status = None, upd_tags = None, upd_notes = None \<rparr> \<rparr>"

definition title_update :: partial_analysis where
  "title_update = \<lparr> upd_ident = None, upd_title = Some ''Casa'', upd_property = None,
     upd_analysis = None, upd_calculations = None,
     upd_metadata = Some \<lparr> upd_created_at = None, upd_updated_at = Some 8,
       upd_broker_email = None, upd_status = Some Archived, upd_tags = None, upd_notes = None \<rparr> \<rparr>"

definition state_with :: "SavedAnalysis list \<Rightarrow> store_state" where
  "state_with xs = \<lparr> cache = \<lparr> entries = [], lists = Some (xs, 0) \<rparr>, storage = store_with xs \<rparr>"

text \<open>
  A state whose store holds the records 1 and 9, with record 9 and the list in the cache.
\<close>

definition state_with_cached_9 :: store_state where
  "state_with_cached_9 =
     \<lparr> cache = \<lparr> entries = [(''9'', sample_analysis ''9'' 5 None, 0)],
                 lists = Some ([sample_analysis ''1'' 5 None, sample_analysis ''9'' 5 None], 0) \<rparr>,
       storage = store_with [sample_analysis ''1'' 5 None, sample_analysis ''9'' 5 None] \<rparr>"

definition published_analysis :: SavedAnalysis where
  "published_analysis =
     (sample_analysis ''1'' 5 None)\<lparr>metadata := (metadata (sample_analysis ''1'' 5 None))\<lparr>status := Published\<rparr>\<rparr>"

text \<open>
  A state whose store holds the published record 1 while the cache still holds the draft
  it was before.
\<close>

definition state_with_stale_draft :: store_state where
  "state_with_stale_draft =
     \<lparr> cache = \<lparr> entries = [(''1'', sample_analysis ''1'' 5 None, 0)], lists = None \<rparr>,
       storage = store_with [published_analysis] \<rparr>"

section \<open>Properties of the list query\<close>

subsection \<open>Filters\<close>

lemmas filter_stage_defs =
  filter_search_def filter_by_status_def filter_minValue_def filter_maxValue_def
  filter_by_bedrooms_def filter_by_bathrooms_def filter_by_tags_def filter_dateFrom_def
  filter_dateTo_def









lemma applyFilters_falsy:
  "applyFilters (f\<lparr>minValue := Some 0\<rparr>) xs = applyFilters (f\<lparr>minValue := None\<rparr>) xs"
  "applyFilters (f\<lparr>maxValue := Some 0\<rparr>) xs = applyFilters (f\<lparr>maxValue := None\<rparr>) xs"
  "applyFilters (f\<lparr>filter_bedrooms := Some 0\<rparr>) xs = applyFilters (f\<lparr>filter_bedrooms := None\<rparr>) xs"
  "applyFilters (f\<lparr>filter_bathrooms := Some 0\<rparr>) xs = applyFilters (f\<lparr>filter_bathrooms := None\<rparr>) xs"
  "applyFilters (f\<lparr>search := Some []\<rparr>) xs = applyFilters (f\<lparr>search := None\<rparr>) xs"
  by (simp_all add: applyFilters_def filter_stage_defs)

lemma compareFn_sort_fields:
  "sortBy g = sortBy f \<Longrightarrow> sortOrder g = sortOrder f \<Longrightarrow> compareFn g = compareFn f"
  by (intro ext) (simp add: compareFn_def)

text \<open>
  C9. In the list query, whatever the sort implementation, the other filters, the page and
  the page size: a numeric filter value of \<open>0\<close> for \<open>minValue\<close>, \<open>maxValue\<close>, \<open>bedrooms\<close> or
  \<open>bathrooms\<close>, and an empty search string, give the same response as leaving that filter
  unspecified. In particular \<open>bedrooms = 0\<close> as the only filter keeps every record, of any
  bedroom count.
\<close>

theorem falsy_filter_values_skipped:
  "GET_list sort_impl (f\<lparr>minValue := Some 0\<rparr>) pg psize xs
     = GET_list sort_impl (f\<lparr>minValue := None\<rparr>) pg psize xs
   \<and> GET_list sort_impl (f\<lparr>maxValue := Some 0\<rparr>) pg psize xs
     = GET_list sort_impl (f\<lparr>maxValue := None\<rparr>) pg psize xs
   \<and> GET_list sort_impl (f\<lparr>filter_bedrooms := Some 0\<rparr>) pg psize xs
     = GET_list sort_impl (f\<lparr>filter_bedrooms := None\<rparr>) pg psize xs
   \<and> GET_list sort_impl (f\<lparr>filter_bathrooms := Some 0\<rparr>) pg psize xs
     = GET_list sort_impl (f\<lparr>filter_bathrooms := None\<rparr>) pg psize xs
   \<and> GET_list sort_impl (f\<lparr>search := Some []\<rparr>) pg psize xs
     = GET_list sort_impl (f\<lparr>search := None\<rparr>) pg psize xs
   \<and> applyFilters (no_filters\<lparr>filter_bedrooms := Some 0\<rparr>) xs = xs"
proof -
  have "applyFilters (no_filters\<lparr>filter_bedrooms := Some 0\<rparr>) xs = xs"
    by (simp add: applyFilters_def filter_stage_defs no_filters_def)
  moreover have "compareFn (f\<lparr>minValue := Some 0\<rparr>) = compareFn (f\<lparr>minValue := None\<rparr>)"
    "compareFn (f\<lparr>maxValue := Some 0\<rparr>) = compareFn (f\<lparr>maxValue := None\<rparr>)"
    "compareFn (f\<lparr>filter_bedrooms := Some 0\<rparr>) = compareFn (f\<lparr>filter_bedrooms := None\<rparr>)"
    "compareFn (f\<lparr>filter_bathrooms := Some 0\<rparr>) = compareFn (f\<lparr>filter_bathrooms := None\<rparr>)"
    "compareFn (f\<lparr>search := Some []\<rparr>) = compareFn (f\<lparr>search := None\<rparr>)"
    by (rule compareFn_sort_fields; simp)+
  ultimately show ?thesis
    by (simp only: GET_list_def applyFilters_falsy simp_thms)
qed

subsection \<open>The comparator\<close>

lemma compareFn_tie:
  assumes "\<not> key_less (sortBy f) a b" and "\<not> key_less (sortBy f) b a"
  shows "compareFn f a b = - 1 \<and> compareFn f b a = - 1"
  using assms by (simp add: compareFn_def)

text \<open>
  C7. Stability of the listing needs a comparator that answers \<open>0\<close> for records with equal
  keys. For two records with the same \<open>updated_at\<close> under the default descending
  \<open>updated_at\<close> sort, the comparator of the handler answers \<open>-1\<close> in both argument orders
  (and for a record against itself): it tells the sort that each of the two comes before
  the other, so the order in which ties come out is left to the engine's algorithm.
\<close>

theorem compareFn_ties_inconsistent:
  "compareFn no_filters (sample_analysis ''1'' 5 None) (sample_analysis ''2'' 5 None) = - 1
   \<and> compareFn no_filters (sample_analysis ''2'' 5 None) (sample_analysis ''1'' 5 None) = - 1
   \<and> compareFn no_filters (sample_analysis ''1'' 5 None) (sample_analysis ''1'' 5 None) = - 1"
  by (simp add: compareFn_def key_less_def no_filters_def sample_analysis_def)

subsection \<open>Pagination\<close>

lemma filter_interval_upt:
  "filter (\<lambda>i. a \<le> int i \<and> int i < b) [0..<n] = [nat a ..< min (nat b) n]"
  by (induction n) auto

lemma take_drop_upt: "take m (drop k xs) = map (\<lambda>i. xs ! i) [k ..< min (k + m) (length xs)]"
proof -
  have "take m (drop k xs) = map (\<lambda>i. xs ! i) (take m (drop k [0..<length xs]))"
    by (metis map_nth take_map drop_map)
  moreover have "take m (drop k [0..<length xs]) = [k ..< min (k + m) (length xs)]"
  proof (cases "k + m \<le> length xs")
    case True
    then show ?thesis by (simp add: min_def)
  next
    case False
    then show ?thesis by (simp add: min_def)
  qed
  ultimately show ?thesis by simp
qed

lemma slice_nonneg:
  assumes "0 \<le> lo" and "lo \<le> hi"
  shows "slice xs lo hi = map (\<lambda>i. xs ! i) [nat lo ..< min (nat hi) (length xs)]"
proof (cases "lo \<le> int (length xs)")
  case True
  have "hi \<le> int (length xs) \<or> int (length xs) < hi" by linarith
  then show ?thesis
  proof
    assume h: "hi \<le> int (length xs)"
    with assms True have "slice xs lo hi = take (nat (hi - lo)) (drop (nat lo) xs)"
      by (simp add: slice_def slice_index_def Let_def min_def)
    moreover from assms h have "min (nat lo + nat (hi - lo)) (length xs) = min (nat hi) (length xs)"
      by (simp add: min_def) linarith
    ultimately show ?thesis by (simp add: take_drop_upt)
  next
    assume h: "int (length xs) < hi"
    with assms True have "slice xs lo hi = take (nat (int (length xs) - lo)) (drop (nat lo) xs)"
      by (simp add: slice_def slice_index_def Let_def min_def)
    moreover from assms h True
    have "min (nat lo + nat (int (length xs) - lo)) (length xs) = min (nat hi) (length xs)"
      by (simp add: min_def) linarith
    ultimately show ?thesis by (simp add: take_drop_upt)
  qed
next
  case False
  with assms have "slice xs lo hi = []"
    by (simp add: slice_def slice_index_def Let_def min_def)
  moreover from False have "[nat lo ..< min (nat hi) (length xs)] = []"
    by simp
  ultimately show ?thesis by simp
qed

text \<open>
  C6, as the code has it. For every page number at least 1 and every page size that is not
  negative, the response holds the records whose index lies in
  \<open>[(page - 1) * pageSize, page * pageSize)\<close>, \<open>total\<close> is the number of records before
  pagination, and \<open>hasMore\<close> holds exactly when \<open>page * pageSize < total\<close>; a page beyond
  the data is an empty slice with \<open>hasMore = false\<close>.
\<close>

theorem paginate_page:
  assumes "1 \<le> pg" and "0 \<le> psize"
  shows "analyses (paginate pg psize xs) = page_slice_spec xs pg psize
       \<and> total (paginate pg psize xs) = int (length xs)
       \<and> hasMore (paginate pg psize xs) = (pg * psize < int (length xs))
       \<and> (int (length xs) \<le> (pg - 1) * psize \<longrightarrow>
            analyses (paginate pg psize xs) = [] \<and> \<not> hasMore (paginate pg psize xs))"
proof -
  let ?lo = "(pg - 1) * psize"
  have hi: "?lo + psize = pg * psize" by (simp add: algebra_simps)
  from assms have lo0: "0 \<le> ?lo" by simp
  from assms have lohi: "?lo \<le> pg * psize" using hi by linarith
  have a: "analyses (paginate pg psize xs) = slice xs ?lo (pg * psize)"
    by (simp add: paginate_def Let_def hi)
  have b: "slice xs ?lo (pg * psize) = map (\<lambda>i. xs ! i) [nat ?lo ..< min (nat (pg * psize)) (length xs)]"
    using lo0 lohi by (rule slice_nonneg)
  have c: "page_slice_spec xs pg psize = map (\<lambda>i. xs ! i) [nat ?lo ..< min (nat (pg * psize)) (length xs)]"
    by (simp only: page_slice_spec_def filter_interval_upt)
  have d: "hasMore (paginate pg psize xs) = (pg * psize < int (length xs))"
    by (simp add: paginate_def Let_def hi)
  have e: "total (paginate pg psize xs) = int (length xs)"
    by (simp add: paginate_def Let_def)
  have f: "int (length xs) \<le> ?lo \<longrightarrow>
            analyses (paginate pg psize xs) = [] \<and> \<not> hasMore (paginate pg psize xs)"
  proof
    assume h: "int (length xs) \<le> ?lo"
    then have "[nat ?lo ..< min (nat (pg * psize)) (length xs)] = []" by simp
    with a b have "analyses (paginate pg psize xs) = []" by simp
    moreover from h lohi have "\<not> hasMore (paginate pg psize xs)" using d by simp
    ultimately show "analyses (paginate pg psize xs) = [] \<and> \<not> hasMore (paginate pg psize xs)"
      by simp
  qed
  from a b c d e f show ?thesis by simp
qed

text \<open>
  The example of the specification: 12 matching records with \<open>pageSize = 5\<close>. Page 1 has
  5 records and more to come, page 3 has the last 2 and no more, page 4 is empty.
\<close>

theorem paginate_page_witness:
  "(1::int) \<le> 3 \<and> (0::int) \<le> 5
   \<and> map ident (analyses (paginate 1 5 twelve)) = [''A'', ''B'', ''C'', ''D'', ''E'']
   \<and> hasMore (paginate 1 5 twelve) = True
   \<and> map ident (analyses (paginate 3 5 twelve)) = [''K'', ''L'']
   \<and> hasMore (paginate 3 5 twelve) = False
   \<and> total (paginate 3 5 twelve) = 12
   \<and> int (length twelve) \<le> (4 - 1) * 5
   \<and> analyses (paginate 4 5 twelve) = [] \<and> hasMore (paginate 4 5 twelve) = False"
proof -
  have len: "length twelve = 12" by (simp add: twelve_def)
  have s1: "map ident (page_slice_spec twelve 1 5) = [''A'', ''B'', ''C'', ''D'', ''E'']"
    by code_simp
  have s3: "map ident (page_slice_spec twelve 3 5) = [''K'', ''L'']" by code_simp
  have s4: "page_slice_spec twelve 4 5 = []" by code_simp
  show ?thesis
    using paginate_page [of 1 5 twelve] paginate_page [of 3 5 twelve] paginate_page [of 4 5 twelve]
    by (simp add: len s1 s3 s4)
qed

text \<open>
  C6 as stated, for every page size, fails: a negative end index makes \<open>slice\<close> count from
  the end of the array. With \<open>page = 1\<close> and \<open>pageSize = -2\<close> over 12 records the handler
  returns the first 10 records, while no index lies in the interval from 0 to -2.
\<close>

theorem paginate_negative_pageSize_counterexample:
  "page_slice_spec twelve 1 (- 2) = []
   \<and> length (analyses (paginate 1 (- 2) twelve)) = 10
   \<and> analyses (paginate 1 (- 2) twelve) \<noteq> page_slice_spec twelve 1 (- 2)"
  by code_simp

section \<open>Properties of the persistence adapter\<close>

subsection \<open>Arrays and the store\<close>

lemma findIndex_ge0_iff: "(0 \<le> findIndex P xs) = (\<exists>x\<in>set xs. P x)"
  by (induction xs) (auto simp: Let_def)

lemma findIndex_bounds: "findIndex P xs < int (length xs)"
  by (induction xs) (auto simp: Let_def)

lemma findIndex_lower: "- 1 \<le> findIndex P xs"
  by (induction xs) (auto simp: Let_def)

lemma find_None_findIndex: "(find P xs = None) = (\<not> 0 \<le> findIndex P xs)"
  by (auto simp: findIndex_ge0_iff find_None_iff)

lemma find_findIndex: "0 \<le> findIndex P xs \<Longrightarrow> find P xs = Some (xs ! nat (findIndex P xs))"
  by (induction xs) (auto simp: Let_def nat_add_distrib)

lemma nth_findIndex: "0 \<le> findIndex P xs \<Longrightarrow> P (xs ! nat (findIndex P xs))"
  by (induction xs) (auto simp: Let_def nat_add_distrib split: if_splits)

lemma find_update_at_findIndex:
  "0 \<le> findIndex P xs \<Longrightarrow> P y \<Longrightarrow> find P (xs[nat (findIndex P xs) := y]) = Some y"
  by (induction xs) (auto simp: Let_def nat_add_distrib)

lemma find_append_new:
  "\<not> 0 \<le> findIndex P xs \<Longrightarrow> P y \<Longrightarrow> find P (xs @ [y]) = Some y"
  by (induction xs) (auto simp: Let_def split: if_splits)

lemma find_filter_out: "find (\<lambda>a. ident a = i) (filter (\<lambda>a. ident a \<noteq> i) xs) = None"
  by (simp add: find_None_iff)

lemma getAll_unavailable: "\<not> available ls \<Longrightarrow> AnalysisStorage_getAll ls = []"
  by (simp add: AnalysisStorage_getAll_def isLocalStorageAvailable_def)

lemma getAll_written:
  "available ls \<Longrightarrow> AnalysisStorage_getAll (ls\<lparr>rental_analyses := Some (Json xs)\<rparr>) = xs"
  by (simp add: AnalysisStorage_getAll_def isLocalStorageAvailable_def getItem_ANALYSES_def JSON_parse_def)

lemma getAll_dashboard_update [simp]:
  "AnalysisStorage_getAll (ls\<lparr>dashboard_data := d\<rparr>) = AnalysisStorage_getAll ls"
  by (simp add: AnalysisStorage_getAll_def isLocalStorageAvailable_def getItem_ANALYSES_def)

lemma getAll_cong:
  "rental_analyses ls' = rental_analyses ls \<Longrightarrow> available ls' = available ls \<Longrightarrow>
   AnalysisStorage_getAll ls' = AnalysisStorage_getAll ls"
  by (simp add: AnalysisStorage_getAll_def isLocalStorageAvailable_def getItem_ANALYSES_def)

lemma updateDashboardStats_available:
  "available ls \<Longrightarrow> AnalysisStorage_updateDashboardStats ls
     = (None, ls\<lparr>dashboard_data := Some (Json (dashboard_stats ls))\<rparr>)"
  by (simp add: AnalysisStorage_updateDashboardStats_def isLocalStorageAvailable_def
      setItem_DASHBOARD_DATA_def Let_def)

lemma getDashboardData_frame:
  "rental_analyses (snd (AnalysisStorage_getDashboardData ls)) = rental_analyses ls
   \<and> available (snd (AnalysisStorage_getDashboardData ls)) = available ls"
  by (simp add: AnalysisStorage_getDashboardData_def AnalysisStorage_updateDashboardStats_def
      isLocalStorageAvailable_def getItem_DASHBOARD_DATA_def setItem_DASHBOARD_DATA_def
      JSON_parse_def Let_def split: option.splits stored_text.splits)

lemma addDashboardActivity_frame:
  "rental_analyses (AnalysisStorage_addDashboardActivity act ls) = rental_analyses ls
   \<and> available (AnalysisStorage_addDashboardActivity act ls) = available ls"
proof (cases "AnalysisStorage_getDashboardData ls")
  case (Pair r ls1)
  with getDashboardData_frame [of ls]
  have f: "rental_analyses ls1 = rental_analyses ls" "available ls1 = available ls" by simp_all
  show ?thesis
    using Pair f
    by (cases r) (simp_all add: AnalysisStorage_addDashboardActivity_def isLocalStorageAvailable_def
        setItem_DASHBOARD_DATA_def Let_def)
qed

lemma getAll_addDashboardActivity [simp]:
  "AnalysisStorage_getAll (AnalysisStorage_addDashboardActivity act ls) = AnalysisStorage_getAll ls"
  by (rule getAll_cong) (simp_all add: addDashboardActivity_frame)

lemma dashboard_stats_cong:
  "AnalysisStorage_getAll ls' = AnalysisStorage_getAll ls \<Longrightarrow> dashboard_stats ls' = dashboard_stats ls"
  by (simp add: dashboard_stats_def AnalysisStorage_getRecentActivity_def)

lemma ident_sample [simp]: "ident (sample_analysis i u t) = i"
  by (simp add: sample_analysis_def)

lemma sample_stamped:
  "(sample_analysis i u t)\<lparr>metadata := (metadata (sample_analysis i u t))\<lparr>updated_at := n\<rparr>\<rparr>
     = sample_analysis i n t"
  by (simp add: sample_analysis_def)

lemma getAll_store_with [simp]: "AnalysisStorage_getAll (store_with xs) = xs"
  by (simp add: store_with_def AnalysisStorage_getAll_def isLocalStorageAvailable_def
      getItem_ANALYSES_def JSON_parse_def)

lemma getAll_empty_store [simp]: "AnalysisStorage_getAll empty_store = []"
  by (simp add: empty_store_def AnalysisStorage_getAll_def isLocalStorageAvailable_def
      getItem_ANALYSES_def)

lemma available_examples [simp]:
  "available (store_with xs)" "available empty_store" "\<not> available unavailable_store"
  by (simp_all add: store_with_def empty_store_def unavailable_store_def)

lemma state_with_simps [simp]:
  "storage (state_with xs) = store_with xs"
  "cache (state_with xs) = \<lparr> entries = [], lists = Some (xs, 0) \<rparr>"
  by (simp_all add: state_with_def)

subsection \<open>Saving and reading back\<close>

lemma save_available:
  assumes "available ls"
  shows "AnalysisStorage_save now a ls =
     (True, ls\<lparr>rental_analyses := Some (Json (upsert now a (AnalysisStorage_getAll ls))),
              dashboard_data := Some (Json (dashboard_stats
                 (ls\<lparr>rental_analyses := Some (Json (upsert now a (AnalysisStorage_getAll ls)))\<rparr>)))\<rparr>)"
  using assms
  by (simp add: AnalysisStorage_save_def isLocalStorageAvailable_def setItem_ANALYSES_def
      updateDashboardStats_available Let_def upsert_def)

lemma getAll_after_save:
  assumes "available ls"
  shows "AnalysisStorage_getAll (snd (AnalysisStorage_save now a ls)) = upsert now a (AnalysisStorage_getAll ls)"
  using assms by (simp add: save_available getAll_written)

lemma find_upsert_self:
  "updated_at (metadata r) = now \<Longrightarrow> find (\<lambda>x. ident x = ident r) (upsert now r xs) = Some r"
  by (simp add: upsert_def find_update_at_findIndex find_append_new)

text \<open>
  C2, as the code has it. With the store available, \<open>save(r)\<close> succeeds and a following
  \<open>getById(r.id)\<close> returns \<open>r\<close> with \<open>updated_at\<close> stamped to the instant of the save when
  a record with that id was already stored, and \<open>r\<close> exactly as the caller gave it, its
  \<open>updated_at\<close> included, when the id is new.
\<close>

theorem save_then_getById:
  assumes "isLocalStorageAvailable ls"
  shows "fst (AnalysisStorage_save now r ls) = True
       \<and> AnalysisStorage_getById (ident r) (snd (AnalysisStorage_save now r ls))
           = Some (if AnalysisStorage_getById (ident r) ls = None then r
                   else r\<lparr>metadata := (metadata r)\<lparr>updated_at := now\<rparr>\<rparr>)"
proof -
  from assms have av: "available ls" by (simp add: isLocalStorageAvailable_def)
  let ?P = "\<lambda>x. ident x = ident r"
  let ?xs = "AnalysisStorage_getAll ls"
  have "find ?P (upsert now r ?xs) = Some (if find ?P ?xs = None then r
                   else r\<lparr>metadata := (metadata r)\<lparr>updated_at := now\<rparr>\<rparr>)"
    by (simp add: upsert_def find_None_findIndex find_update_at_findIndex find_append_new)
  with av show ?thesis
    by (simp add: AnalysisStorage_getById_def getAll_after_save) (simp add: save_available)
qed

text \<open>Saving over the stored record 1 at instant 100, and saving the new record 2.\<close>

theorem save_then_getById_witness:
  "isLocalStorageAvailable (store_with [sample_analysis ''1'' 5 None])
   \<and> AnalysisStorage_getById ''1''
        (snd (AnalysisStorage_save 100 (sample_analysis ''1'' 7 (Some [''x'']))
               (store_with [sample_analysis ''1'' 5 None])))
       = Some (sample_analysis ''1'' 100 (Some [''x'']))
   \<and> AnalysisStorage_getById ''2''
        (snd (AnalysisStorage_save 100 (sample_analysis ''2'' 7 None)
               (store_with [sample_analysis ''1'' 5 None])))
       = Some (sample_analysis ''2'' 7 None)"
  using save_then_getById [of "store_with [sample_analysis ''1'' 5 None]" 100
                              "sample_analysis ''1'' 7 (Some [''x''])"]
        save_then_getById [of "store_with [sample_analysis ''1'' 5 None]" 100
                              "sample_analysis ''2'' 7 None"]
  by (simp add: isLocalStorageAvailable_def AnalysisStorage_getById_def sample_stamped)

text \<open>
  C2 as stated fails for a new id: a record whose \<open>updated_at\<close> is 5, saved at instant 100
  into an empty store, is read back with \<open>updated_at\<close> 5, which is before the save.
\<close>

theorem save_new_record_counterexample:
  "fst (AnalysisStorage_save 100 (sample_analysis ''1'' 5 None) empty_store) = True
   \<and> AnalysisStorage_getById ''1''
        (snd (AnalysisStorage_save 100 (sample_analysis ''1'' 5 None) empty_store))
       = Some (sample_analysis ''1'' 5 None)
   \<and> updated_at (metadata (sample_analysis ''1'' 5 None)) < 100"
proof -
  have "AnalysisStorage_getAll (snd (AnalysisStorage_save 100 (sample_analysis ''1'' 5 None) empty_store))
        = [sample_analysis ''1'' 5 None]"
    by (simp add: getAll_after_save upsert_def)
  then have "AnalysisStorage_getById ''1''
        (snd (AnalysisStorage_save 100 (sample_analysis ''1'' 5 None) empty_store))
       = Some (sample_analysis ''1'' 5 None)"
    by (simp add: AnalysisStorage_getById_def)
  moreover have "fst (AnalysisStorage_save 100 (sample_analysis ''1'' 5 None) empty_store) = True"
    by (simp add: save_available)
  moreover have "updated_at (metadata (sample_analysis ''1'' 5 None)) < 100"
    by (simp add: sample_analysis_def)
  ultimately show ?thesis by simp
qed

subsection \<open>An unavailable store\<close>

text \<open>
  C8. With the store unavailable, \<open>getAll\<close> is empty, \<open>getById\<close> is absent, the dashboard
  read gives the zeroed summary, and \<open>save\<close>, \<open>delete\<close>, \<open>updateStatus\<close> and \<open>clearAll\<close>
  return \<open>false\<close>; each returns a value (none ends in an error) and leaves the store as
  it was.
\<close>

theorem unavailable_store_degrades:
  assumes "\<not> isLocalStorageAvailable ls"
  shows "AnalysisStorage_getAll ls = []
       \<and> AnalysisStorage_getById i ls = None
       \<and> AnalysisStorage_getDashboardData ls = (Inr empty_dashboard, ls)
       \<and> AnalysisStorage_save now a ls = (False, ls)
       \<and> AnalysisStorage_delete i ls = (False, ls)
       \<and> AnalysisStorage_updateStatus now i st ls = (False, ls)
       \<and> AnalysisStorage_clearAll ls = (False, ls)"
  using assms
  by (simp add: AnalysisStorage_getAll_def AnalysisStorage_getById_def
      AnalysisStorage_getDashboardData_def AnalysisStorage_save_def AnalysisStorage_delete_def
      AnalysisStorage_updateStatus_def AnalysisStorage_clearAll_def Let_def)

text \<open>An unavailable store that holds three records.\<close>

theorem unavailable_store_degrades_witness:
  "\<not> isLocalStorageAvailable unavailable_store
   \<and> AnalysisStorage_getAll unavailable_store = []
   \<and> AnalysisStorage_getById ''1'' unavailable_store = None
   \<and> AnalysisStorage_getDashboardData unavailable_store = (Inr empty_dashboard, unavailable_store)
   \<and> AnalysisStorage_save 100 (sample_analysis ''1'' 5 None) unavailable_store = (False, unavailable_store)
   \<and> AnalysisStorage_delete ''1'' unavailable_store = (False, unavailable_store)
   \<and> AnalysisStorage_updateStatus 100 ''1'' Published unavailable_store = (False, unavailable_store)
   \<and> AnalysisStorage_clearAll unavailable_store = (False, unavailable_store)"
  using unavailable_store_degrades [of unavailable_store "''1''" 100 "sample_analysis ''1'' 5 None" Published]
  by (simp add: isLocalStorageAvailable_def)

subsection \<open>Deleting\<close>

lemma delete_available:
  assumes "available ls"
  shows "AnalysisStorage_delete i ls =
     (True, ls\<lparr>rental_analyses := Some (Json (filter (\<lambda>a. ident a \<noteq> i) (AnalysisStorage_getAll ls))),
              dashboard_data := Some (Json (dashboard_stats
                 (ls\<lparr>rental_analyses := Some (Json (filter (\<lambda>a. ident a \<noteq> i) (AnalysisStorage_getAll ls)))\<rparr>)))\<rparr>)"
  using assms
  by (simp add: AnalysisStorage_delete_def isLocalStorageAvailable_def setItem_ANALYSES_def
      updateDashboardStats_available Let_def)

lemma getAll_after_delete:
  assumes "available ls"
  shows "AnalysisStorage_getAll (snd (AnalysisStorage_delete i ls)) = filter (\<lambda>a. ident a \<noteq> i) (AnalysisStorage_getAll ls)"
  using assms by (simp add: delete_available getAll_written)

lemma deleteAnalysis_available:
  assumes "available (storage s)"
  shows "fst (deleteAnalysis now i s) = True"
    and "cache (snd (deleteAnalysis now i s)) = cache_invalidateLists (cache_invalidate i (cache s))"
    and "AnalysisStorage_getAll (storage (snd (deleteAnalysis now i s)))
         = filter (\<lambda>a. ident a \<noteq> i) (AnalysisStorage_getAll (storage s))"
  using assms
  by (simp_all add: deleteAnalysis_def delete_available Let_def getAll_written split: option.splits)

lemma deleteAnalysis_unavailable:
  "\<not> available (storage s) \<Longrightarrow> fst (deleteAnalysis now i s) = False"
  by (simp add: deleteAnalysis_def AnalysisStorage_delete_def isLocalStorageAvailable_def Let_def)

text \<open>
  C10. With the store available, \<open>delete(id)\<close> for an id that no stored record has returns
  \<open>true\<close>: the collection read back afterwards is the one before, the dashboard summary
  is recomputed and written, and the repository's \<open>deleteAnalysis\<close> returns \<open>true\<close> as
  well.
\<close>

theorem delete_absent_id_succeeds:
  assumes "isLocalStorageAvailable ls" and "AnalysisStorage_getById i ls = None"
  shows "fst (AnalysisStorage_delete i ls) = True
       \<and> AnalysisStorage_getAll (snd (AnalysisStorage_delete i ls)) = AnalysisStorage_getAll ls
       \<and> dashboard_data (snd (AnalysisStorage_delete i ls)) = Some (Json (dashboard_stats ls))
       \<and> fst (deleteAnalysis now i \<lparr> cache = c, storage = ls \<rparr>) = True"
proof -
  from assms(1) have av: "available ls" by (simp add: isLocalStorageAvailable_def)
  from assms(2) have "filter (\<lambda>a. ident a \<noteq> i) (AnalysisStorage_getAll ls) = AnalysisStorage_getAll ls"
    by (auto simp: AnalysisStorage_getById_def find_None_iff filter_id_conv)
  then have same: "AnalysisStorage_getAll (snd (AnalysisStorage_delete i ls)) = AnalysisStorage_getAll ls"
    using av by (simp add: getAll_after_delete)
  have "dashboard_data (snd (AnalysisStorage_delete i ls))
        = Some (Json (dashboard_stats (ls\<lparr>rental_analyses := Some (Json (filter (\<lambda>a. ident a \<noteq> i) (AnalysisStorage_getAll ls)))\<rparr>)))"
    using av by (simp add: delete_available)
  moreover have "dashboard_stats (ls\<lparr>rental_analyses := Some (Json (filter (\<lambda>a. ident a \<noteq> i) (AnalysisStorage_getAll ls)))\<rparr>)
        = dashboard_stats ls"
    using av \<open>filter (\<lambda>a. ident a \<noteq> i) (AnalysisStorage_getAll ls) = AnalysisStorage_getAll ls\<close>
    by (intro dashboard_stats_cong) (simp add: getAll_written)
  ultimately have dd: "dashboard_data (snd (AnalysisStorage_delete i ls)) = Some (Json (dashboard_stats ls))"
    by simp
  have "fst (deleteAnalysis now i \<lparr> cache = c, storage = ls \<rparr>) = True"
    using av by (simp add: deleteAnalysis_def delete_available Let_def split: option.splits)
  with same dd av show ?thesis by (simp add: delete_available)
qed

text \<open>Deleting the id 404 from a store of three records.\<close>

theorem delete_absent_id_succeeds_witness:
  "isLocalStorageAvailable (store_with tagged_records)
   \<and> AnalysisStorage_getById ''404'' (store_with tagged_records) = None
   \<and> fst (AnalysisStorage_delete ''404'' (store_with tagged_records)) = True
   \<and> AnalysisStorage_getAll (snd (AnalysisStorage_delete ''404'' (store_with tagged_records))) = tagged_records
   \<and> dashboard_data (snd (AnalysisStorage_delete ''404'' (store_with tagged_records)))
       = Some (Json (dashboard_stats (store_with tagged_records)))
   \<and> fst (deleteAnalysis 100 ''404'' \<lparr> cache = \<lparr> entries = [], lists = None \<rparr>,
                                        storage = store_with tagged_records \<rparr>) = True"
proof -
  have a: "isLocalStorageAvailable (store_with tagged_records)"
    by (simp add: isLocalStorageAvailable_def)
  have b: "AnalysisStorage_getById ''404'' (store_with tagged_records) = None"
    by (simp add: AnalysisStorage_getById_def tagged_records_def)
  show ?thesis
    using delete_absent_id_succeeds [OF a b, of 100 "\<lparr> entries = [], lists = None \<rparr>"] a b
    by simp
qed

section \<open>Properties of the repository\<close>

subsection \<open>Partial updates\<close>

lemma getById_Some_available: "AnalysisStorage_getById i ls = Some e \<Longrightarrow> available ls"
  by (cases "available ls") (simp_all add: AnalysisStorage_getById_def getAll_unavailable)

lemma getById_Some_ident: "AnalysisStorage_getById i ls = Some e \<Longrightarrow> ident e = i"
  by (auto simp: AnalysisStorage_getById_def find_Some_iff)

lemma merge_analysis_fields:
  "ident (merge_analysis now e u) = or_else (upd_ident u) (ident e)"
  "updated_at (metadata (merge_analysis now e u)) = now"
  "created_at (metadata (merge_analysis now e u)) =
     (case upd_metadata u of
        None \<Rightarrow> created_at (metadata e)
      | Some m \<Rightarrow> or_else (upd_created_at m) (created_at (metadata e)))"
  by (simp_all add: merge_analysis_def merge_metadata_def split: option.splits)

lemma find_upsert:
  "find (\<lambda>x. ident x = ident a) (upsert t a xs)
     = Some (if find (\<lambda>x. ident x = ident a) xs = None then a
             else a\<lparr>metadata := (metadata a)\<lparr>updated_at := t\<rparr>\<rparr>)"
  by (simp add: upsert_def find_None_findIndex find_update_at_findIndex find_append_new)

lemma updateAnalysis_found:
  assumes "AnalysisStorage_getById i (storage s) = Some e"
  shows "updateAnalysis now save_now i u s =
     (Some (merge_analysis now e u),
      \<lparr> cache = cache_invalidateLists (cache_set save_now i (merge_analysis now e u) (cache s)),
        storage = snd (AnalysisStorage_save save_now (merge_analysis now e u) (storage s)) \<rparr>)"
  using assms getById_Some_available [OF assms]
  by (simp add: updateAnalysis_def Let_def save_available)

lemma updateAnalysis_stored:
  assumes "AnalysisStorage_getById i (storage s) = Some e"
    and "ident (merge_analysis now e u) = i"
  shows "AnalysisStorage_getById i (storage (snd (updateAnalysis now save_now i u s)))
         = Some ((merge_analysis now e u)
                   \<lparr>metadata := (metadata (merge_analysis now e u))\<lparr>updated_at := save_now\<rparr>\<rparr>)"
proof -
  let ?r = "merge_analysis now e u"
  let ?xs = "AnalysisStorage_getAll (storage s)"
  from assms(1) have av: "available (storage s)" by (rule getById_Some_available)
  from assms have "find (\<lambda>x. ident x = ident ?r) ?xs \<noteq> None"
    by (simp add: AnalysisStorage_getById_def)
  then have "find (\<lambda>x. ident x = ident ?r) (upsert save_now ?r ?xs)
             = Some (?r\<lparr>metadata := (metadata ?r)\<lparr>updated_at := save_now\<rparr>\<rparr>)"
    by (simp only: find_upsert if_False)
  moreover have "AnalysisStorage_getAll (storage (snd (updateAnalysis now save_now i u s)))
                 = upsert save_now ?r ?xs"
    using av by (simp add: updateAnalysis_found [OF assms(1)] getAll_after_save)
  ultimately show ?thesis
    using assms(2) by (simp only: AnalysisStorage_getById_def)
qed

text \<open>
  C3, as the code has it. For an existing record, \<open>updateAnalysis\<close> returns a record whose
  \<open>updated_at\<close> is the instant it read, whatever the caller supplied; the \<open>id\<close> and
  \<open>created_at\<close> of that record are those of the existing record when the partial input
  does not supply them, and the supplied values otherwise. When the id is kept, the record
  then stored under it is the returned one with \<open>updated_at\<close> stamped again, to the instant
  the adapter's \<open>save\<close> read.
\<close>

theorem updateAnalysis_merges:
  assumes "AnalysisStorage_getById i (storage s) = Some e"
  shows "\<exists>r. fst (updateAnalysis now save_now i u s) = Some r
       \<and> ident r = (case upd_ident u of None \<Rightarrow> i | Some supplied \<Rightarrow> supplied)
       \<and> created_at (metadata r) =
           (case upd_metadata u of
              None \<Rightarrow> created_at (metadata e)
            | Some m \<Rightarrow> (case upd_created_at m of
                          None \<Rightarrow> created_at (metadata e)
                        | Some supplied \<Rightarrow> supplied))
       \<and> updated_at (metadata r) = now
       \<and> (ident r = i \<longrightarrow>
            AnalysisStorage_getById i (storage (snd (updateAnalysis now save_now i u s)))
              = Some (r\<lparr>metadata := (metadata r)\<lparr>updated_at := save_now\<rparr>\<rparr>))"
proof -
  let ?r = "merge_analysis now e u"
  have "fst (updateAnalysis now save_now i u s) = Some ?r"
    by (simp add: updateAnalysis_found [OF assms])
  moreover have "ident ?r = (case upd_ident u of None \<Rightarrow> i | Some supplied \<Rightarrow> supplied)"
    using getById_Some_ident [OF assms]
    by (simp add: merge_analysis_fields or_else_def split: option.splits)
  moreover have "created_at (metadata ?r) =
           (case upd_metadata u of
              None \<Rightarrow> created_at (metadata e)
            | Some m \<Rightarrow> (case upd_created_at m of
                          None \<Rightarrow> created_at (metadata e)
                        | Some supplied \<Rightarrow> supplied))"
    by (simp add: merge_analysis_fields or_else_def split: option.splits)
  moreover have "updated_at (metadata ?r) = now"
    by (simp add: merge_analysis_fields)
  moreover have "ident ?r = i \<longrightarrow>
            AnalysisStorage_getById i (storage (snd (updateAnalysis now save_now i u s)))
              = Some (?r\<lparr>metadata := (metadata ?r)\<lparr>updated_at := save_now\<rparr>\<rparr>)"
    using updateAnalysis_stored [OF assms] by blast
  ultimately show ?thesis by blast
qed

text \<open>
  An update of title and status that also supplies an \<open>updated_at\<close>, read at instant 100
  and saved at instant 101.
\<close>

theorem updateAnalysis_merges_witness:
  "AnalysisStorage_getById ''1'' (storage (state_with [sample_analysis ''1'' 5 None]))
     = Some (sample_analysis ''1'' 5 None)
   \<and> (\<exists>r. fst (updateAnalysis 100 101 ''1'' title_update (state_with [sample_analysis ''1'' 5 None]))
            = Some r
       \<and> ident r = ''1'' \<and> created_at (metadata r) = 1000 \<and> updated_at (metadata r) = 100
       \<and> AnalysisStorage_getById ''1''
            (storage (snd (updateAnalysis 100 101 ''1'' title_update
                             (state_with [sample_analysis ''1'' 5 None]))))
           = Some (r\<lparr>metadata := (metadata r)\<lparr>updated_at := 101\<rparr>\<rparr>))"
proof -
  let ?s = "state_with [sample_analysis ''1'' 5 None]"
  have a: "AnalysisStorage_getById ''1'' (storage ?s) = Some (sample_analysis ''1'' 5 None)"
    by (simp add: AnalysisStorage_getById_def state_with_def)
  have c: "created_at (metadata (sample_analysis ''1'' 5 None)) = 1000"
    by (simp add: sample_analysis_def)
  from updateAnalysis_merges [OF a, of 100 101 title_update]
  obtain r where r: "fst (updateAnalysis 100 101 ''1'' title_update ?s) = Some r"
      "ident r = ''1''" "created_at (metadata r) = 1000" "updated_at (metadata r) = 100"
      "AnalysisStorage_getById ''1'' (storage (snd (updateAnalysis 100 101 ''1'' title_update ?s)))
        = Some (r\<lparr>metadata := (metadata r)\<lparr>updated_at := 101\<rparr>\<rparr>)"
    by (auto simp: title_update_def c)
  then show ?thesis using a by blast
qed

text \<open>
  C3 as stated fails: an update of record 1 that supplies the id 9 and the \<open>created_at\<close> 7
  returns a record with id 9 and \<open>created_at\<close> 7, and the record stored under id 1 keeps
  its \<open>updated_at\<close> 5.
\<close>

theorem updateAnalysis_supplied_id_counterexample:
  "map_option ident
     (fst (updateAnalysis 100 101 ''1'' rename_update (state_with [sample_analysis ''1'' 5 None])))
     = Some ''9''
   \<and> map_option (\<lambda>r. created_at (metadata r))
        (fst (updateAnalysis 100 101 ''1'' rename_update (state_with [sample_analysis ''1'' 5 None])))
     = Some 7
   \<and> AnalysisStorage_getById ''1''
        (storage (snd (updateAnalysis 100 101 ''1'' rename_update
                         (state_with [sample_analysis ''1'' 5 None]))))
     = Some (sample_analysis ''1'' 5 None)
   \<and> created_at (metadata (sample_analysis ''1'' 5 None)) = 1000"
proof -
  let ?s = "state_with [sample_analysis ''1'' 5 None]"
  let ?e = "sample_analysis ''1'' 5 None"
  let ?r = "merge_analysis 100 ?e rename_update"
  have a: "AnalysisStorage_getById ''1'' (storage ?s) = Some ?e"
    by (simp add: AnalysisStorage_getById_def state_with_def)
  have av: "available (storage ?s)"
    by (simp add: state_with_def)
  have xs: "AnalysisStorage_getAll (storage ?s) = [?e]"
    by (simp add: state_with_def)
  have ir: "ident ?r = ''9''"
    by (simp add: merge_analysis_fields or_else_def rename_update_def)
  have cr: "created_at (metadata ?r) = 7"
    by (simp add: merge_analysis_fields or_else_def rename_update_def)
  have "upsert 101 ?r [?e] = [?e, ?r]"
    by (simp add: upsert_def ir)
  then have "AnalysisStorage_getAll (snd (AnalysisStorage_save 101 ?r (storage ?s))) = [?e, ?r]"
    by (simp only: getAll_after_save [OF av] xs)
  then have kept: "AnalysisStorage_getById ''1'' (snd (AnalysisStorage_save 101 ?r (storage ?s))) = Some ?e"
    by (simp add: AnalysisStorage_getById_def)
  have res: "fst (updateAnalysis 100 101 ''1'' rename_update ?s) = Some ?r"
    and sto: "storage (snd (updateAnalysis 100 101 ''1'' rename_update ?s))
              = snd (AnalysisStorage_save 101 ?r (storage ?s))"
    by (simp_all add: updateAnalysis_found [OF a])
  have c0: "created_at (metadata ?e) = 1000"
    by (simp add: sample_analysis_def)
  show ?thesis
    by (simp only: res sto kept ir cr c0 option.map simp_thms)
qed

subsection \<open>The cache\<close>

lemma cache_get_invalidate [simp]: "cache_get t i (cache_invalidate i c) = None"
proof -
  have "map_of (filter (\<lambda>e. fst e \<noteq> i) (entries c)) i = None"
    by (auto simp: map_of_eq_None_iff)
  then show ?thesis by (simp add: cache_get_def cache_invalidate_def)
qed

lemma cache_get_invalidateLists [simp]:
  "cache_get t i (cache_invalidateLists c) = cache_get t i c"
  by (simp add: cache_get_def cache_invalidateLists_def)

lemma cache_getList_invalidateLists [simp]: "cache_getList t (cache_invalidateLists c) = None"
  by (simp add: cache_getList_def cache_invalidateLists_def)

lemma cache_get_set [simp]:
  "cache_get t i (cache_set now i a c) = (if t - now < cache_ttl then Some a else None)"
  by (simp add: cache_get_def cache_set_def)

lemma getAllAnalyses_miss:
  "cache_getList t (cache s) = None \<Longrightarrow> fst (getAllAnalyses t s) = AnalysisStorage_getAll (storage s)"
  by (simp add: getAllAnalyses_def Let_def)

lemma getAnalysisById_miss:
  "cache_get t i (cache s) = None \<Longrightarrow> fst (getAnalysisById t i s) = AnalysisStorage_getById i (storage s)"
  by (simp add: getAnalysisById_def split: option.splits)

lemma getAnalysisById_storage [simp]: "storage (snd (getAnalysisById t i s)) = storage s"
  by (simp add: getAnalysisById_def split: option.splits)

subsection \<open>The delete endpoint\<close>

text \<open>
  C4. The delete endpoint, for an id whose record it finds in an available store: if the
  record's status is \<open>published\<close> the answer is 403 Forbidden and the store is left as it
  was; for any other status the answer is 200 with the deleted record's id, title and
  address, a following \<open>getAnalysisById(id)\<close> is absent and the following list does not
  contain the id. The guard is in the endpoint; \<open>deleteAnalysis\<close> itself does not look at
  the status.
\<close>

theorem DELETE_published_forbidden_else_removed:
  assumes "i \<noteq> []" and "isLocalStorageAvailable (storage s)"
    and "fst (getAnalysisById now i s) = Some a"
  shows "(status (metadata a) = Published \<longrightarrow>
            fst (DELETE now i s) = Forbidden_403
          \<and> storage (snd (DELETE now i s)) = storage s)
       \<and> (status (metadata a) \<noteq> Published \<longrightarrow>
            fst (DELETE now i s) = Deleted_200 (ident a) (title a) (address (property a))
          \<and> fst (getAnalysisById t i (snd (DELETE now i s))) = None
          \<and> i \<notin> ident ` set (fst (getAllAnalyses t (snd (DELETE now i s)))))"
proof -
  obtain s1 where g: "getAnalysisById now i s = (Some a, s1)"
    using assms(3) by (cases "getAnalysisById now i s") simp
  then have st: "storage s1 = storage s"
    using getAnalysisById_storage [of now i s] by simp
  from assms(2) st have av: "available (storage s1)"
    by (simp add: isLocalStorageAvailable_def)
  show ?thesis
  proof (cases "status (metadata a) = Published")
    case True
    with assms(1) g st show ?thesis by (simp add: DELETE_def)
  next
    case False
    obtain ok s2 where d: "deleteAnalysis now i s1 = (ok, s2)"
      by (cases "deleteAnalysis now i s1")
    from deleteAnalysis_available [OF av, of now i] d
    have ok: "ok = True"
      and c2: "cache s2 = cache_invalidateLists (cache_invalidate i (cache s1))"
      and x2: "AnalysisStorage_getAll (storage s2) = filter (\<lambda>a. ident a \<noteq> i) (AnalysisStorage_getAll (storage s1))"
      by simp_all
    from assms(1) g False d ok
    have r: "DELETE now i s = (Deleted_200 (ident a) (title a) (address (property a)), s2)"
      by (simp add: DELETE_def)
    have "cache_get t i (cache s2) = None" by (simp add: c2)
    then have "fst (getAnalysisById t i s2) = AnalysisStorage_getById i (storage s2)"
      by (rule getAnalysisById_miss)
    then have n: "fst (getAnalysisById t i s2) = None"
      by (simp add: AnalysisStorage_getById_def x2 find_filter_out)
    have "cache_getList t (cache s2) = None" by (simp add: c2)
    then have "fst (getAllAnalyses t s2) = AnalysisStorage_getAll (storage s2)"
      by (rule getAllAnalyses_miss)
    then have l: "i \<notin> ident ` set (fst (getAllAnalyses t s2))"
      by (auto simp: x2)
    from False r n l show ?thesis by simp
  qed
qed

text \<open>A store with the published record 1 and the draft record 2, the list being cached.\<close>

theorem DELETE_published_forbidden_else_removed_witness:
  "''1'' \<noteq> [] \<and> ''2'' \<noteq> []
   \<and> isLocalStorageAvailable (storage (state_with [published_analysis, sample_analysis ''2'' 5 None]))
   \<and> fst (getAnalysisById 100 ''1'' (state_with [published_analysis, sample_analysis ''2'' 5 None]))
       = Some published_analysis
   \<and> status (metadata published_analysis) = Published
   \<and> fst (DELETE 100 ''1'' (state_with [published_analysis, sample_analysis ''2'' 5 None])) = Forbidden_403
   \<and> storage (snd (DELETE 100 ''1'' (state_with [published_analysis, sample_analysis ''2'' 5 None])))
       = storage (state_with [published_analysis, sample_analysis ''2'' 5 None])
   \<and> fst (getAnalysisById 100 ''2'' (state_with [published_analysis, sample_analysis ''2'' 5 None]))
       = Some (sample_analysis ''2'' 5 None)
   \<and> status (metadata (sample_analysis ''2'' 5 None)) \<noteq> Published
   \<and> fst (DELETE 100 ''2'' (state_with [published_analysis, sample_analysis ''2'' 5 None]))
       = Deleted_200 ''2'' ''Depto 2'' ''Av. Providencia 123''
   \<and> fst (getAnalysisById 101 ''2''
            (snd (DELETE 100 ''2'' (state_with [published_analysis, sample_analysis ''2'' 5 None])))) = None
   \<and> ''2'' \<notin> ident ` set (fst (getAllAnalyses 101
            (snd (DELETE 100 ''2'' (state_with [published_analysis, sample_analysis ''2'' 5 None])))))"
proof -
  let ?s = "state_with [published_analysis, sample_analysis ''2'' 5 None]"
  have n1: "''1'' \<noteq> []" and n2: "''2'' \<noteq> []" by simp_all
  have av: "isLocalStorageAvailable (storage ?s)" by (simp add: isLocalStorageAvailable_def)
  have i1: "ident published_analysis = ''1''" by (simp add: published_analysis_def)
  have g1: "fst (getAnalysisById 100 ''1'' ?s) = Some published_analysis"
    by (simp add: getAnalysisById_def cache_get_def AnalysisStorage_getById_def i1)
  have g2: "fst (getAnalysisById 100 ''2'' ?s) = Some (sample_analysis ''2'' 5 None)"
    by (simp add: getAnalysisById_def cache_get_def AnalysisStorage_getById_def i1)
  have p1: "status (metadata published_analysis) = Published"
    by (simp add: published_analysis_def)
  have p2: "status (metadata (sample_analysis ''2'' 5 None)) \<noteq> Published"
    by (simp add: sample_analysis_def)
  have f2: "title (sample_analysis ''2'' 5 None) = ''Depto 2''"
       "address (property (sample_analysis ''2'' 5 None)) = ''Av. Providencia 123''"
    by (simp_all add: sample_analysis_def)
  from DELETE_published_forbidden_else_removed [OF n1 av g1, of 101]
       DELETE_published_forbidden_else_removed [OF n2 av g2, of 101]
       av g1 g2 p1 p2 f2
  show ?thesis by simp
qed

text \<open>
  C4 as stated fails for the repository's delete: \<open>deleteAnalysis\<close> on the published
  record 1 returns \<open>true\<close> and the record is gone from the store. It fails for the
  endpoint too when the cache holds an older copy: with the draft copy of the published
  record 1 in the cache, the endpoint answers 200 and the published record is gone.
\<close>

theorem deleteAnalysis_published_counterexample:
  "status (metadata published_analysis) = Published
   \<and> AnalysisStorage_getById ''1''
        (storage (state_with [published_analysis, sample_analysis ''2'' 5 None]))
       = Some published_analysis
   \<and> fst (deleteAnalysis 100 ''1'' (state_with [published_analysis, sample_analysis ''2'' 5 None]))
       = True
   \<and> AnalysisStorage_getById ''1''
        (storage (snd (deleteAnalysis 100 ''1''
                         (state_with [published_analysis, sample_analysis ''2'' 5 None]))))
       = None
   \<and> AnalysisStorage_getById ''1'' (storage state_with_stale_draft) = Some published_analysis
   \<and> fst (DELETE 100 ''1'' state_with_stale_draft)
       = Deleted_200 ''1'' ''Depto 1'' ''Av. Providencia 123''
   \<and> AnalysisStorage_getById ''1'' (storage (snd (DELETE 100 ''1'' state_with_stale_draft))) = None"
proof -
  let ?s = "state_with [published_analysis, sample_analysis ''2'' 5 None]"
  have av: "available (storage ?s)" by simp
  have i1: "ident published_analysis = ''1''" by (simp add: published_analysis_def)
  have p1: "status (metadata published_analysis) = Published"
    by (simp add: published_analysis_def)
  have g: "AnalysisStorage_getById ''1'' (storage ?s) = Some published_analysis"
    by (simp add: AnalysisStorage_getById_def i1)
  have "AnalysisStorage_getAll (storage (snd (deleteAnalysis 100 ''1'' ?s)))
        = [sample_analysis ''2'' 5 None]"
    by (simp add: deleteAnalysis_available(3) [OF av] i1)
  then have n: "AnalysisStorage_getById ''1'' (storage (snd (deleteAnalysis 100 ''1'' ?s))) = None"
    by (simp add: AnalysisStorage_getById_def)
  let ?t = "state_with_stale_draft"
  have st: "storage ?t = store_with [published_analysis]"
    and ca: "cache ?t = \<lparr> entries = [(''1'', sample_analysis ''1'' 5 None, 0)], lists = None \<rparr>"
    by (simp_all add: state_with_stale_draft_def)
  have av2: "available (storage ?t)" by (simp add: st)
  have g2: "AnalysisStorage_getById ''1'' (storage ?t) = Some published_analysis"
    by (simp add: AnalysisStorage_getById_def st i1)
  have rd: "getAnalysisById 100 ''1'' ?t = (Some (sample_analysis ''1'' 5 None), ?t)"
    by (simp add: getAnalysisById_def cache_get_def ca cache_ttl_def)
  have dr: "status (metadata (sample_analysis ''1'' 5 None)) \<noteq> Published"
       "title (sample_analysis ''1'' 5 None) = ''Depto 1''"
       "address (property (sample_analysis ''1'' 5 None)) = ''Av. Providencia 123''"
    by (simp_all add: sample_analysis_def)
  obtain s2 where d2: "deleteAnalysis 100 ''1'' ?t = (True, s2)"
    using deleteAnalysis_available(1) [OF av2, of 100 "''1''"]
    by (cases "deleteAnalysis 100 ''1'' ?t") simp
  have "AnalysisStorage_getAll (storage (snd (deleteAnalysis 100 ''1'' ?t))) = []"
    by (simp add: deleteAnalysis_available(3) [OF av2] st i1)
  with d2 have x2: "AnalysisStorage_getAll (storage s2) = []" by simp
  have e: "DELETE 100 ''1'' ?t = (Deleted_200 ''1'' ''Depto 1'' ''Av. Providencia 123'', s2)"
    by (simp add: DELETE_def rd dr d2)
  have n2: "AnalysisStorage_getById ''1'' (storage (snd (DELETE 100 ''1'' ?t))) = None"
    by (simp add: e AnalysisStorage_getById_def x2)
  have e1: "fst (DELETE 100 ''1'' ?t) = Deleted_200 ''1'' ''Depto 1'' ''Av. Providencia 123''"
    by (simp add: e)
  from p1 g n g2 e1 n2 deleteAnalysis_available(1) [OF av, of 100 "''1''"] show ?thesis
    by (simp only: simp_thms)
qed

subsection \<open>Cache coherence after a mutation\<close>

lemma saveAnalysis_available:
  assumes "available (storage s)"
  shows "fst (saveAnalysis now a s) = Inr a"
    and "cache (snd (saveAnalysis now a s)) = cache_invalidateLists (cache_set now (ident a) a (cache s))"
    and "AnalysisStorage_getAll (storage (snd (saveAnalysis now a s)))
         = upsert now a (AnalysisStorage_getAll (storage s))"
  using assms
  by (simp_all add: saveAnalysis_def save_available Let_def getAll_written)

lemma saveAnalysis_unavailable:
  "\<not> available (storage s) \<Longrightarrow> fst (saveAnalysis now a s) \<noteq> Inr a"
  by (simp add: saveAnalysis_def AnalysisStorage_save_def isLocalStorageAvailable_def)

lemma saveAnalysis_coherent:
  assumes "fst (saveAnalysis now a s) = Inr a"
  shows "cache_getList t (cache (snd (saveAnalysis now a s))) = None
       \<and> fst (getAllAnalyses t (snd (saveAnalysis now a s)))
           = upsert now a (AnalysisStorage_getAll (storage s))
       \<and> cache_get t (ident a) (cache (snd (saveAnalysis now a s)))
           = (if t - now < cache_ttl then Some a else None)
       \<and> AnalysisStorage_getById (ident a) (storage (snd (saveAnalysis now a s)))
           = Some (if AnalysisStorage_getById (ident a) (storage s) = None then a
                   else a\<lparr>metadata := (metadata a)\<lparr>updated_at := now\<rparr>\<rparr>)"
proof -
  from assms have av: "available (storage s)"
    using saveAnalysis_unavailable [of s now a] by blast
  have l: "cache_getList t (cache (snd (saveAnalysis now a s))) = None"
    by (simp add: saveAnalysis_available(2) [OF av])
  have g: "fst (getAllAnalyses t (snd (saveAnalysis now a s)))
           = upsert now a (AnalysisStorage_getAll (storage s))"
    using getAllAnalyses_miss [OF l] by (simp add: saveAnalysis_available(3) [OF av])
  have c: "cache_get t (ident a) (cache (snd (saveAnalysis now a s)))
           = (if t - now < cache_ttl then Some a else None)"
    by (simp add: saveAnalysis_available(2) [OF av])
  have st: "AnalysisStorage_getById (ident a) (storage (snd (saveAnalysis now a s)))
           = Some (if AnalysisStorage_getById (ident a) (storage s) = None then a
                   else a\<lparr>metadata := (metadata a)\<lparr>updated_at := now\<rparr>\<rparr>)"
    by (simp only: AnalysisStorage_getById_def saveAnalysis_available(3) [OF av] find_upsert)
  from l g c st show ?thesis by (simp only: simp_thms)
qed

lemma updateAnalysis_coherent:
  assumes "fst (updateAnalysis now save_now i u s) = Some r"
  shows "cache_getList t (cache (snd (updateAnalysis now save_now i u s))) = None
       \<and> fst (getAllAnalyses t (snd (updateAnalysis now save_now i u s)))
           = upsert save_now r (AnalysisStorage_getAll (storage s))
       \<and> (ident r = i \<longrightarrow>
            cache_get t i (cache (snd (updateAnalysis now save_now i u s)))
              = (if t - save_now < cache_ttl then Some r else None)
          \<and> AnalysisStorage_getById i (storage (snd (updateAnalysis now save_now i u s)))
              = Some (r\<lparr>metadata := (metadata r)\<lparr>updated_at := save_now\<rparr>\<rparr>))"
proof (cases "AnalysisStorage_getById i (storage s)")
  case None
  with assms show ?thesis by (simp add: updateAnalysis_def)
next
  case (Some e)
  note f = updateAnalysis_found [OF Some, of now save_now u]
  from assms f have r: "r = merge_analysis now e u" by simp
  from Some have av: "available (storage s)" by (rule getById_Some_available)
  have l: "cache_getList t (cache (snd (updateAnalysis now save_now i u s))) = None"
    by (simp add: f)
  have "AnalysisStorage_getAll (storage (snd (updateAnalysis now save_now i u s)))
        = upsert save_now r (AnalysisStorage_getAll (storage s))"
    using av by (simp add: f r getAll_after_save)
  with getAllAnalyses_miss [OF l]
  have g: "fst (getAllAnalyses t (snd (updateAnalysis now save_now i u s)))
           = upsert save_now r (AnalysisStorage_getAll (storage s))"
    by simp
  have c: "cache_get t i (cache (snd (updateAnalysis now save_now i u s)))
           = (if t - save_now < cache_ttl then Some r else None)"
    by (simp add: f r)
  have st: "ident r = i \<longrightarrow>
          AnalysisStorage_getById i (storage (snd (updateAnalysis now save_now i u s)))
              = Some (r\<lparr>metadata := (metadata r)\<lparr>updated_at := save_now\<rparr>\<rparr>)"
    using updateAnalysis_stored [OF Some, of now u save_now] r by blast
  from l g c st show ?thesis by blast
qed

lemma deleteAnalysis_coherent:
  assumes "fst (deleteAnalysis now i s)"
  shows "cache_getList t (cache (snd (deleteAnalysis now i s))) = None
       \<and> cache_get t i (cache (snd (deleteAnalysis now i s))) = None
       \<and> fst (getAllAnalyses t (snd (deleteAnalysis now i s)))
           = filter (\<lambda>x. ident x \<noteq> i) (AnalysisStorage_getAll (storage s))"
proof -
  from assms have av: "available (storage s)"
    using deleteAnalysis_unavailable [of s now i] by auto
  have l: "cache_getList t (cache (snd (deleteAnalysis now i s))) = None"
    by (simp add: deleteAnalysis_available(2) [OF av])
  from getAllAnalyses_miss [OF l] show ?thesis
    by (simp add: deleteAnalysis_available [OF av])
qed

lemma updateStatus_success:
  assumes "fst (AnalysisStorage_updateStatus now i st ls)"
  shows "map_option (\<lambda>r. status (metadata r))
           (find (\<lambda>x. ident x = i) (AnalysisStorage_getAll (snd (AnalysisStorage_updateStatus now i st ls))))
         = Some st"
proof -
  let ?xs = "AnalysisStorage_getAll ls"
  let ?k = "findIndex (\<lambda>a. ident a = i) ?xs"
  from assms have k: "0 \<le> ?k"
    by (cases "0 \<le> ?k") (simp_all add: AnalysisStorage_updateStatus_def Let_def)
  from assms k have av: "available ls"
    by (cases "available ls") (simp_all add: AnalysisStorage_updateStatus_def Let_def setItem_ANALYSES_def)
  let ?old = "?xs ! nat ?k"
  let ?new = "?old\<lparr>metadata := (metadata ?old)\<lparr>status := st, updated_at := now\<rparr>\<rparr>"
  have "ident ?old = i" using nth_findIndex [OF k] by simp
  then have "ident ?new = i" by simp
  with k have f: "find (\<lambda>a. ident a = i) (?xs[nat ?k := ?new]) = Some ?new"
    by (rule find_update_at_findIndex)
  have "AnalysisStorage_getAll (snd (AnalysisStorage_updateStatus now i st ls)) = ?xs[nat ?k := ?new]"
    using k av
    by (simp add: AnalysisStorage_updateStatus_def Let_def setItem_ANALYSES_def getAll_written)
  with f show ?thesis by simp
qed

lemma updateStatus_fst:
  "fst (AnalysisStorage_updateStatus now i st ls)
     = (available ls \<and> 0 \<le> findIndex (\<lambda>a. ident a = i) (AnalysisStorage_getAll ls))"
  by (simp add: AnalysisStorage_updateStatus_def Let_def setItem_ANALYSES_def)

lemma updateAnalysisStatus_fst:
  "fst (updateAnalysisStatus now i st s) = fst (AnalysisStorage_updateStatus now i st (storage s))"
  by (cases "AnalysisStorage_updateStatus now i st (storage s)")
     (simp add: updateAnalysisStatus_def split: bool.splits)

lemma updateAnalysisStatus_coherent:
  assumes "fst (updateAnalysisStatus now i st s)"
  shows "cache_getList t (cache (snd (updateAnalysisStatus now i st s))) = None
       \<and> cache_get t i (cache (snd (updateAnalysisStatus now i st s))) = None
       \<and> map_option (\<lambda>r. status (metadata r))
           (find (\<lambda>x. ident x = i) (fst (getAllAnalyses t (snd (updateAnalysisStatus now i st s)))))
           = Some st"
proof -
  obtain ok ls where u: "AnalysisStorage_updateStatus now i st (storage s) = (ok, ls)"
    by (cases "AnalysisStorage_updateStatus now i st (storage s)")
  with assms have ok: "ok" by (cases ok) (simp_all add: updateAnalysisStatus_def)
  with u have s': "snd (updateAnalysisStatus now i st s)
        = \<lparr> cache = cache_invalidateLists (cache_invalidate i (cache s)), storage = ls \<rparr>"
    by (simp add: updateAnalysisStatus_def)
  have l: "cache_getList t (cache (snd (updateAnalysisStatus now i st s))) = None"
    by (simp add: s')
  have c: "cache_get t i (cache (snd (updateAnalysisStatus now i st s))) = None"
    by (simp add: s')
  from u ok have "fst (AnalysisStorage_updateStatus now i st (storage s))" by simp
  from updateStatus_success [OF this] u
  have "map_option (\<lambda>r. status (metadata r)) (find (\<lambda>x. ident x = i) (AnalysisStorage_getAll ls)) = Some st"
    by simp
  with getAllAnalyses_miss [OF l] l c show ?thesis by (simp add: s')
qed

text \<open>
  C5, as the code has it. After each successful mutation of the repository
  (\<open>saveAnalysis\<close>, \<open>updateAnalysis\<close>, \<open>deleteAnalysis\<close>, \<open>updateAnalysisStatus\<close>), at any
  later instant \<open>t\<close>, no list is cached, so the following \<open>getAllAnalyses\<close> is read from the
  store and shows the mutation, whatever list was cached before. The cache entry under the
  id is absent after a delete and after a status update. After a save, and after an update
  that keeps the id, it is (until it expires) the record the caller gets back, which is the
  record then stored under the id except for \<open>updated_at\<close>, stamped by the adapter when it
  replaces a stored record.
\<close>

theorem mutations_invalidate_lists:
  "(fst (saveAnalysis now a s) = Inr a \<longrightarrow>
       cache_getList t (cache (snd (saveAnalysis now a s))) = None
     \<and> fst (getAllAnalyses t (snd (saveAnalysis now a s)))
         = upsert now a (AnalysisStorage_getAll (storage s))
     \<and> cache_get t (ident a) (cache (snd (saveAnalysis now a s)))
         = (if t - now < cache_ttl then Some a else None)
     \<and> AnalysisStorage_getById (ident a) (storage (snd (saveAnalysis now a s)))
         = Some (if AnalysisStorage_getById (ident a) (storage s) = None then a
                 else a\<lparr>metadata := (metadata a)\<lparr>updated_at := now\<rparr>\<rparr>))
   \<and> (fst (updateAnalysis now save_now i u s) = Some r \<longrightarrow>
       cache_getList t (cache (snd (updateAnalysis now save_now i u s))) = None
     \<and> fst (getAllAnalyses t (snd (updateAnalysis now save_now i u s)))
         = upsert save_now r (AnalysisStorage_getAll (storage s))
     \<and> (ident r = i \<longrightarrow>
          cache_get t i (cache (snd (updateAnalysis now save_now i u s)))
            = (if t - save_now < cache_ttl then Some r else None)
        \<and> AnalysisStorage_getById i (storage (snd (updateAnalysis now save_now i u s)))
            = Some (r\<lparr>metadata := (metadata r)\<lparr>updated_at := save_now\<rparr>\<rparr>)))
   \<and> (fst (deleteAnalysis now i s) \<longrightarrow>
       cache_getList t (cache (snd (deleteAnalysis now i s))) = None
     \<and> cache_get t i (cache (snd (deleteAnalysis now i s))) = None
     \<and> fst (getAllAnalyses t (snd (deleteAnalysis now i s)))
         = filter (\<lambda>x. ident x \<noteq> i) (AnalysisStorage_getAll (storage s)))
   \<and> (fst (updateAnalysisStatus now i st s) \<longrightarrow>
       cache_getList t (cache (snd (updateAnalysisStatus now i st s))) = None
     \<and> cache_get t i (cache (snd (updateAnalysisStatus now i st s))) = None
     \<and> map_option (\<lambda>r. status (metadata r))
         (find (\<lambda>x. ident x = i) (fst (getAllAnalyses t (snd (updateAnalysisStatus now i st s)))))
         = Some st)"
  using saveAnalysis_coherent [of now a s t] updateAnalysis_coherent [of now save_now i u s r t]
    deleteAnalysis_coherent [of now i s t] updateAnalysisStatus_coherent [of now i st s t]
  by blast

text \<open>
  The four mutations on a state whose cached list holds record 1 only, read at instant 102:
  the cached list before, and the store's content after each mutation. The save is over
  the stored id 1 with a record whose \<open>updated_at\<close> is 7.
\<close>

theorem mutations_invalidate_lists_witness:
  "fst (getAllAnalyses 102 (state_with [sample_analysis ''1'' 5 None])) = [sample_analysis ''1'' 5 None]
   \<and> fst (saveAnalysis 100 (sample_analysis ''1'' 7 None) (state_with [sample_analysis ''1'' 5 None]))
       = Inr (sample_analysis ''1'' 7 None)
   \<and> fst (getAllAnalyses 102
        (snd (saveAnalysis 100 (sample_analysis ''1'' 7 None) (state_with [sample_analysis ''1'' 5 None]))))
       = [sample_analysis ''1'' 100 None]
   \<and> cache_get 102 ''1''
        (cache (snd (saveAnalysis 100 (sample_analysis ''1'' 7 None)
                       (state_with [sample_analysis ''1'' 5 None]))))
       = Some (sample_analysis ''1'' 7 None)
   \<and> AnalysisStorage_getById ''1''
        (storage (snd (saveAnalysis 100 (sample_analysis ''1'' 7 None)
                         (state_with [sample_analysis ''1'' 5 None]))))
       = Some (sample_analysis ''1'' 100 None)
   \<and> fst (updateAnalysis 100 101 ''1'' title_update (state_with [sample_analysis ''1'' 5 None]))
       = Some (merge_analysis 100 (sample_analysis ''1'' 5 None) title_update)
   \<and> ident (merge_analysis 100 (sample_analysis ''1'' 5 None) title_update) = ''1''
   \<and> fst (getAllAnalyses 102
        (snd (updateAnalysis 100 101 ''1'' title_update (state_with [sample_analysis ''1'' 5 None]))))
       = [merge_analysis 101 (sample_analysis ''1'' 5 None) title_update]
   \<and> cache_get 102 ''1''
        (cache (snd (updateAnalysis 100 101 ''1'' title_update (state_with [sample_analysis ''1'' 5 None]))))
       = Some (merge_analysis 100 (sample_analysis ''1'' 5 None) title_update)
   \<and> AnalysisStorage_getById ''1''
        (storage (snd (updateAnalysis 100 101 ''1'' title_update
                         (state_with [sample_analysis ''1'' 5 None]))))
       = Some (merge_analysis 101 (sample_analysis ''1'' 5 None) title_update)
   \<and> fst (deleteAnalysis 100 ''1'' (state_with [sample_analysis ''1'' 5 None]))
   \<and> cache_get 102 ''1'' (cache (snd (deleteAnalysis 100 ''1'' (state_with [sample_analysis ''1'' 5 None]))))
       = None
   \<and> fst (getAllAnalyses 102 (snd (deleteAnalysis 100 ''1'' (state_with [sample_analysis ''1'' 5 None])))) = []
   \<and> fst (updateAnalysisStatus 100 ''1'' Published (state_with [sample_analysis ''1'' 5 None]))
   \<and> map_option (\<lambda>r. status (metadata r))
        (find (\<lambda>x. ident x = ''1'') (fst (getAllAnalyses 102
           (snd (updateAnalysisStatus 100 ''1'' Published (state_with [sample_analysis ''1'' 5 None]))))))
       = Some Published"
proof -
  let ?e = "sample_analysis ''1'' 5 None"
  let ?s = "state_with [?e]"
  let ?a = "sample_analysis ''1'' 7 None"
  let ?r = "merge_analysis 100 ?e title_update"
  have av: "available (storage ?s)" by simp
  have before: "fst (getAllAnalyses 102 ?s) = [?e]"
    by (simp add: getAllAnalyses_def cache_getList_def cache_ttl_def)
  have sv: "fst (saveAnalysis 100 ?a ?s) = Inr ?a"
    by (rule saveAnalysis_available(1) [OF av])
  have gb: "AnalysisStorage_getById ''1'' (storage ?s) = Some ?e"
    by (simp add: AnalysisStorage_getById_def)
  have up: "fst (updateAnalysis 100 101 ''1'' title_update ?s) = Some ?r"
    by (simp add: updateAnalysis_found [OF gb])
  have dl: "fst (deleteAnalysis 100 ''1'' ?s)"
    by (simp add: deleteAnalysis_available(1) [OF av])
  have us: "fst (updateAnalysisStatus 100 ''1'' Published ?s)"
    by (simp add: updateAnalysisStatus_fst updateStatus_fst)
  have ir: "ident ?r = ''1''"
    by (simp add: merge_analysis_fields or_else_def title_update_def)
  have ups: "upsert 100 ?a [?e] = [sample_analysis ''1'' 100 None]"
    by (simp add: upsert_def sample_stamped)
  have rs: "?r\<lparr>metadata := (metadata ?r)\<lparr>updated_at := 101\<rparr>\<rparr> = merge_analysis 101 ?e title_update"
    by (simp add: merge_analysis_def merge_metadata_def title_update_def)
  have upr: "upsert 101 ?r [?e] = [merge_analysis 101 ?e title_update]"
    by (simp add: upsert_def ir rs)
  have fresh: "(102::int) - 100 < cache_ttl" "(102::int) - 101 < cache_ttl"
    by (simp_all add: cache_ttl_def)
  have xs: "AnalysisStorage_getAll (storage ?s) = [?e]" by simp
  have sa: "?a\<lparr>metadata := (metadata ?a)\<lparr>updated_at := 100\<rparr>\<rparr> = sample_analysis ''1'' 100 None"
    by (rule sample_stamped)
  have ia: "ident ?a = ''1''" by simp
  note m = mutations_invalidate_lists [of 100 ?a ?s 102 101 "''1''" title_update ?r Published]
  from m sv have
    s1: "fst (getAllAnalyses 102 (snd (saveAnalysis 100 ?a ?s))) = [sample_analysis ''1'' 100 None]"
    and s2: "cache_get 102 ''1'' (cache (snd (saveAnalysis 100 ?a ?s))) = Some ?a"
    and s3: "AnalysisStorage_getById ''1'' (storage (snd (saveAnalysis 100 ?a ?s)))
             = Some (sample_analysis ''1'' 100 None)"
    by (simp_all only: xs ups ia gb fresh sa if_True if_False option.distinct simp_thms)
  from m up ir have
    u1: "fst (getAllAnalyses 102 (snd (updateAnalysis 100 101 ''1'' title_update ?s)))
         = [merge_analysis 101 ?e title_update]"
    and u2: "cache_get 102 ''1'' (cache (snd (updateAnalysis 100 101 ''1'' title_update ?s))) = Some ?r"
    and u3: "AnalysisStorage_getById ''1'' (storage (snd (updateAnalysis 100 101 ''1'' title_update ?s)))
             = Some (merge_analysis 101 ?e title_update)"
    by (simp_all only: xs upr fresh rs if_True simp_thms)
  from m dl have
    d1: "cache_get 102 ''1'' (cache (snd (deleteAnalysis 100 ''1'' ?s))) = None"
    and d2: "fst (getAllAnalyses 102 (snd (deleteAnalysis 100 ''1'' ?s))) = []"
    by (simp_all add: xs)
  from m us have
    t1: "map_option (\<lambda>r. status (metadata r))
        (find (\<lambda>x. ident x = ''1'') (fst (getAllAnalyses 102
           (snd (updateAnalysisStatus 100 ''1'' Published ?s))))) = Some Published"
    by (simp only: simp_thms)
  from before sv s1 s2 s3 up ir u1 u2 u3 dl d1 d2 us t1 show ?thesis
    by (simp only: simp_thms)
qed

text \<open>
  C5 as stated fails for the cache entry of the mutated record. An update of record 1 that
  supplies the id 9 replaces the stored record 9, and the cached copy of the old record 9
  is still served afterwards. A save over the stored id 1 of a record whose \<open>updated_at\<close>
  is 7 leaves 7 in the cache and 100 in the store.
\<close>

theorem stale_entry_counterexample:
  "map_option title
     (fst (updateAnalysis 100 101 ''1'' rename_update state_with_cached_9))
     = Some ''Depto 1''
   \<and> map_option title
       (AnalysisStorage_getById ''9''
          (storage (snd (updateAnalysis 100 101 ''1'' rename_update state_with_cached_9))))
     = Some ''Depto 1''
   \<and> map_option title
       (fst (getAnalysisById 102 ''9''
          (snd (updateAnalysis 100 101 ''1'' rename_update state_with_cached_9))))
     = Some ''Depto 9''
   \<and> map_option (\<lambda>r. updated_at (metadata r))
       (fst (getAnalysisById 102 ''1''
          (snd (saveAnalysis 100 (sample_analysis ''1'' 7 None) (state_with [sample_analysis ''1'' 5 None])))))
     = Some 7
   \<and> map_option (\<lambda>r. updated_at (metadata r))
       (AnalysisStorage_getById ''1''
          (storage (snd (saveAnalysis 100 (sample_analysis ''1'' 7 None)
                           (state_with [sample_analysis ''1'' 5 None])))))
     = Some 100"
proof -
  let ?e = "sample_analysis ''1'' 5 None"
  let ?n = "sample_analysis ''9'' 5 None"
  let ?s = "state_with_cached_9"
  let ?r = "merge_analysis 100 ?e rename_update"
  have st: "storage ?s = store_with [?e, ?n]"
    and ca: "cache ?s = \<lparr> entries = [(''9'', ?n, 0)], lists = Some ([?e, ?n], 0) \<rparr>"
    by (simp_all add: state_with_cached_9_def)
  have av: "available (storage ?s)" by (simp add: st)
  have gb: "AnalysisStorage_getById ''1'' (storage ?s) = Some ?e"
    by (simp add: AnalysisStorage_getById_def st)
  note f = updateAnalysis_found [OF gb, of 100 101 rename_update]
  have ir: "ident ?r = ''9''"
    by (simp add: merge_analysis_fields or_else_def rename_update_def)
  have tr: "title ?r = ''Depto 1''"
    by (simp add: merge_analysis_def or_else_def rename_update_def sample_analysis_def)
  have res: "map_option title (fst (updateAnalysis 100 101 ''1'' rename_update ?s)) = Some ''Depto 1''"
    by (simp add: f tr)
  have "upsert 101 ?r [?e, ?n] = [?e, ?r\<lparr>metadata := (metadata ?r)\<lparr>updated_at := 101\<rparr>\<rparr>]"
    by (simp add: upsert_def ir)
  then have "AnalysisStorage_getAll (storage (snd (updateAnalysis 100 101 ''1'' rename_update ?s)))
        = [?e, ?r\<lparr>metadata := (metadata ?r)\<lparr>updated_at := 101\<rparr>\<rparr>]"
    using av by (simp add: f getAll_after_save st)
  then have stored: "map_option title (AnalysisStorage_getById ''9''
          (storage (snd (updateAnalysis 100 101 ''1'' rename_update ?s)))) = Some ''Depto 1''"
    by (simp add: AnalysisStorage_getById_def ir tr)
  have "cache_get 102 ''9'' (cache (snd (updateAnalysis 100 101 ''1'' rename_update ?s))) = Some ?n"
    by (simp add: f ca cache_get_def cache_set_def cache_invalidateLists_def cache_ttl_def)
  then have "fst (getAnalysisById 102 ''9'' (snd (updateAnalysis 100 101 ''1'' rename_update ?s))) = Some ?n"
    by (simp add: getAnalysisById_def)
  then have cached: "map_option title
       (fst (getAnalysisById 102 ''9'' (snd (updateAnalysis 100 101 ''1'' rename_update ?s))))
     = Some ''Depto 9''"
    by (simp add: sample_analysis_def)
  let ?t = "state_with [?e]"
  let ?a = "sample_analysis ''1'' 7 None"
  have av2: "available (storage ?t)" by simp
  have "cache_get 102 ''1'' (cache (snd (saveAnalysis 100 ?a ?t))) = Some ?a"
    by (simp add: saveAnalysis_available(2) [OF av2] cache_ttl_def)
  then have "fst (getAnalysisById 102 ''1'' (snd (saveAnalysis 100 ?a ?t))) = Some ?a"
    by (simp add: getAnalysisById_def)
  then have c7: "map_option (\<lambda>r. updated_at (metadata r))
       (fst (getAnalysisById 102 ''1'' (snd (saveAnalysis 100 ?a ?t)))) = Some 7"
    by (simp add: sample_analysis_def)
  have "AnalysisStorage_getAll (storage (snd (saveAnalysis 100 ?a ?t))) = [sample_analysis ''1'' 100 None]"
    by (simp add: saveAnalysis_available(3) [OF av2] upsert_def sample_stamped)
  then have s100: "map_option (\<lambda>r. updated_at (metadata r))
       (AnalysisStorage_getById ''1'' (storage (snd (saveAnalysis 100 ?a ?t)))) = Some 100"
    by (simp add: AnalysisStorage_getById_def) (simp add: sample_analysis_def)
  from res stored cached c7 s100 show ?thesis by (simp only: simp_thms)
qed

end
